theory Spec2Isabelle
  imports Complex_Main "HOL-Library.Sublist"
begin

text \<open>
  A shallow embedding of two TypeScript sources of the social-responder dashboard: the
  route handler \<^verbatim>\<open>POST /api/respond\<close>, which validates a reply request and hands it
  to \<^verbatim>\<open>postMetaResponse\<close>, and the page component \<^verbatim>\<open>Home\<close>, which holds the inbox,
  the automation rules, the composer and the activity log. Line numbers in the comments
  are those of the handler and of the page. What the platform supplies (the outcome of
  \<^verbatim>\<open>request.json()\<close>, of \<^verbatim>\<open>fetch\<close>, the clock, the JSON built-ins) enters as
  parameters; thrown values are results of a sum type.
\<close>

section \<open>JSON values as the JavaScript runtime holds them\<close>

text \<open>
  The route handler reads its request body with \<^verbatim>\<open>request.json()\<close> and the page reads
  the relay's answer with \<^verbatim>\<open>response.json()\<close>. Both yield a parsed JSON value whose
  TypeScript type is only a cast, so the model keeps the value untyped. A number is a
  double: a finite one is held by its exact value (both zeros are \<open>0\<close>), and an
  overflowing literal parses to an infinity. An object is its own properties in insertion
  order; a parsed object has no repeated key.
\<close>

datatype jsnumber = Finite rat | PosInfinity | NegInfinity

datatype json =
    JNull
  | JBool bool
  | JNum jsnumber
  | JStr string
  | JArr "json list"
  | JObj "(string \<times> json) list"

text \<open>ToBoolean of a JSON value: \<open>null\<close>, \<open>false\<close>, zero and the empty string are falsy.\<close>

fun truthy :: "json \<Rightarrow> bool" where
  "truthy JNull = False"
| "truthy (JBool b) = b"
| "truthy (JNum n) = (n \<noteq> Finite 0)"
| "truthy (JStr s) = (s \<noteq> [])"
| "truthy (JArr xs) = True"
| "truthy (JObj kvs) = True"

text \<open>
  The result of a property read is a value or \<open>undefined\<close> (\<open>None\<close>), which is falsy.
\<close>

fun ToBoolean :: "json option \<Rightarrow> bool" where
  "ToBoolean None = False"
| "ToBoolean (Some v) = truthy v"

text \<open>
  \<open>field_of v k\<close> is the read \<^verbatim>\<open>v.k\<close> on a value other than \<open>null\<close>, for the property
  names this program reads (none of them is defined on a built-in prototype): an object
  gives its own property, every other value gives \<open>undefined\<close>. The read on \<open>null\<close>
  throws and is written out where the program performs it.
\<close>

fun field_of :: "json \<Rightarrow> string \<Rightarrow> json option" where
  "field_of (JObj kvs) k = map_of kvs k"
| "field_of v k = None"

text \<open>
  A thrown value is an instance of \<^verbatim>\<open>Error\<close>, with its message, or something else.
\<close>

datatype thrown = JsError string | NonError json

section \<open>The respond relay: \<^verbatim>\<open>POST /api/respond\<close>\<close>

text \<open>
  The argument object the handler builds for \<^verbatim>\<open>postMetaResponse\<close>: every field is
  the property read off the body, so each may be \<open>undefined\<close> as far as the types of the
  run time go.
\<close>

record RespondRequest =
  rq_platform :: "json option"
  rq_targetId :: "json option"
  rq_message :: "json option"
  rq_channel :: "json option"
  rq_dryRun :: "json option"
  rq_accessToken :: "json option"
  rq_instagramBusinessAccountId :: "json option"
  rq_replyToId :: "json option"

record NextResponse =
  res_status :: nat
  res_body :: json

text \<open>
  What one run of the handler did: the response it returned, the arguments of its calls
  of \<^verbatim>\<open>postMetaResponse\<close>, and the outbound network calls those made.
\<close>

record 'c handled =
  response :: NextResponse
  pmr_calls :: "RespondRequest list"
  network :: "'c list"

definition NextResponse_json :: "json \<Rightarrow> nat \<Rightarrow> NextResponse" where
  "NextResponse_json data st = \<lparr>res_status = st, res_body = data\<rparr>"

definition respond_request :: "json \<Rightarrow> RespondRequest" where
  "respond_request body =
     \<lparr>rq_platform = field_of body ''platform'',
      rq_targetId = field_of body ''targetId'',
      rq_message = field_of body ''message'',
      rq_channel = field_of body ''channel'',
      rq_dryRun = field_of body ''dryRun'',
      rq_accessToken = field_of body ''accessToken'',
      rq_instagramBusinessAccountId = field_of body ''instagramBusinessAccountId'',
      rq_replyToId = field_of body ''replyToId''\<rparr>"

text \<open>
  The body of the \<^verbatim>\<open>try\<close> block. \<open>null_read p\<close> is the message of the TypeError the
  engine throws for reading property \<open>p\<close> of \<open>null\<close>; \<open>request_json\<close> is the outcome of
  \<^verbatim>\<open>await request.json()\<close>; \<open>postMetaResponse\<close> gives the outcome of the helper and
  the outbound calls it made. The result is the response returned or the value thrown,
  with the calls made so far.
\<close>

definition POST_try ::
  "(string \<Rightarrow> string) \<Rightarrow> (RespondRequest \<Rightarrow> (thrown + json) \<times> 'c list) \<Rightarrow>
     thrown + json \<Rightarrow> (thrown + NextResponse) \<times> RespondRequest list \<times> 'c list" where
  "POST_try null_read postMetaResponse request_json =
     (case request_json of
        Inl error \<Rightarrow> (Inl error, [], [])
      | Inr body \<Rightarrow>
          if body = JNull then (Inl (JsError (null_read ''platform'')), [], [])
          else if \<not> ToBoolean (field_of body ''platform'') \<or>
                  \<not> ToBoolean (field_of body ''targetId'') \<or>
                  \<not> ToBoolean (field_of body ''message'') \<or>
                  \<not> ToBoolean (field_of body ''channel'')
          then (Inr (NextResponse_json
                  (JObj [(''ok'', JBool False),
                         (''error'', JStr ''platform, targetId, message, and channel are required properties.'')])
                  400), [], [])
          else if field_of body ''channel'' \<noteq> Some (JStr ''comment'') \<and>
                  field_of body ''channel'' \<noteq> Some (JStr ''message'')
          then (Inr (NextResponse_json
                  (JObj [(''ok'', JBool False),
                         (''error'', JStr ''channel must be comment or message'')])
                  400), [], [])
          else
            (case postMetaResponse (respond_request body) of
               (Inl error, calls) \<Rightarrow> (Inl error, [respond_request body], calls)
             | (Inr result, calls) \<Rightarrow>
                 (Inr (NextResponse_json (JObj [(''ok'', JBool True), (''result'', result)]) 200),
                  [respond_request body], calls)))"

text \<open>The \<^verbatim>\<open>catch\<close> block: the response made of a thrown value.\<close>

definition POST_catch :: "thrown \<Rightarrow> NextResponse" where
  "POST_catch error =
     NextResponse_json
       (JObj [(''ok'', JBool False),
              (''error'', JStr (case error of
                                  JsError msg \<Rightarrow> msg
                                | NonError v \<Rightarrow> ''Unexpected error while sending response''))])
       500"

definition POST ::
  "(string \<Rightarrow> string) \<Rightarrow> (RespondRequest \<Rightarrow> (thrown + json) \<times> 'c list) \<Rightarrow>
     thrown + json \<Rightarrow> 'c handled" where
  "POST null_read postMetaResponse request_json =
     (case POST_try null_read postMetaResponse request_json of
        (Inl error, invoked, calls) \<Rightarrow>
          \<lparr>response = POST_catch error, pmr_calls = invoked, network = calls\<rparr>
      | (Inr res, invoked, calls) \<Rightarrow>
          \<lparr>response = res, pmr_calls = invoked, network = calls\<rparr>)"

text \<open>
  Modelled from the spec: \<^verbatim>\<open>postMetaResponse\<close> of \<^verbatim>\<open>lib/meta\<close>, which the route
  imports and which is not among the sources. The spec says that the relay "selects a
  Meta Graph API endpoint by platform (Facebook vs Instagram) and channel (comment vs
  message), and either returns a simulated ("dry run") result or performs the live HTTP
  call": the endpoint is selected first, then the mode is chosen. On the selection:
  "Instagram comment/message paths require a business account ID dependent value;
  Facebook paths use the page/object ID directly", and "for a valid Instagram request,
  the endpoint path depends on instagramBusinessAccountId; omitting it when required
  yields a downstream failure surfaced as 500". On the modes: "when requested (or when no
  token is supplied), the relay returns a simulated success object describing the call it
  would have made, without any outbound network request. Otherwise it performs exactly
  one outbound call and relays the remote JSON body"; \<^verbatim>\<open>META_ACCESS_TOKEN\<close> is the
  "fallback token when a request omits accessToken"; the dry-run result has the shape
  \<^verbatim>\<open>{dryRun:true, ...}\<close>.

  So the selection fails, by a throw and before any call, for a request whose platform is
  \<^verbatim>\<open>"instagram"\<close> and whose \<^verbatim>\<open>instagramBusinessAccountId\<close> is left out or falsy (the page
  sends the empty string until an id is typed in); and a token is supplied when the
  request's \<^verbatim>\<open>accessToken\<close> is truthy or the environment variable is set to a non-empty
  text (the page sends the empty string until a token is typed in). The path patterns, the
  rest of the descriptor, the remote API and the value thrown for the missing id are not
  given by the spec and stay parameters: \<open>endpoint\<close>, \<open>describe\<close>, \<open>remote\<close>, \<open>no_account\<close>.
\<close>

definition postMetaResponse ::
  "string option \<Rightarrow> (RespondRequest \<Rightarrow> 'c) \<Rightarrow> ('c \<Rightarrow> (string \<times> json) list) \<Rightarrow>
     ('c \<Rightarrow> thrown + json) \<Rightarrow> thrown \<Rightarrow> RespondRequest \<Rightarrow> (thrown + json) \<times> 'c list" where
  "postMetaResponse META_ACCESS_TOKEN endpoint describe remote no_account rq =
     (if rq_platform rq = Some (JStr ''instagram'') \<and>
         \<not> ToBoolean (rq_instagramBusinessAccountId rq)
      then (Inl no_account, [])
      else if rq_dryRun rq = Some (JBool True) \<or>
              (\<not> ToBoolean (rq_accessToken rq) \<and>
               (case META_ACCESS_TOKEN of None \<Rightarrow> True | Some token \<Rightarrow> token = []))
      then (Inr (JObj ((''dryRun'', JBool True) # describe (endpoint rq))), [])
      else (remote (endpoint rq), [endpoint rq]))"

section \<open>The dashboard page: data\<close>

text \<open>
  String-literal union types are datatypes, each with the text it stands for where the
  page prints it. \<open>MetaChannel\<close> is \<^verbatim>\<open>"comment" | "message"\<close>, the type of a rule's
  channel and of a message's \<^verbatim>\<open>type\<close>.
\<close>

datatype Platform = Facebook | Instagram

datatype PlatformFilter = AllPlatforms | OnPlatform Platform

datatype MetaChannel = Comment | Message

datatype MessageStatus = Unread | Responded | Snoozed

datatype StatusFilter = AllStatuses | WithStatus MessageStatus

datatype AutomationStatus = Active | Paused

datatype Outcome = Scheduled | Sent | Failed

fun platform_text :: "Platform \<Rightarrow> string" where
  "platform_text Facebook = ''facebook''"
| "platform_text Instagram = ''instagram''"

fun channel_text :: "MetaChannel \<Rightarrow> string" where
  "channel_text Comment = ''comment''"
| "channel_text Message = ''message''"

text \<open>
  Modelled from the spec: the type \<^verbatim>\<open>SocialMessage\<close> of \<^verbatim>\<open>data/sampleMessages\<close>, which
  is not among the sources. The spec lists "platform (facebook|instagram), type
  (comment|message), author, snippet, timestamp, status (unread|responded|snoozed),
  optional intent tag"; the page also reads \<^verbatim>\<open>id\<close> and \<^verbatim>\<open>avatar\<close>. The list
  \<^verbatim>\<open>sampleMessages\<close> of the same file is a parameter wherever it is used.
\<close>

record SocialMessage =
  m_id :: string
  m_platform :: Platform
  m_type :: MetaChannel
  m_author :: string
  m_avatar :: string
  m_snippet :: string
  m_timestamp :: string
  m_status :: MessageStatus
  m_intent :: "string option"

record AutomationRule =
  a_id :: string
  a_name :: string
  a_platform :: PlatformFilter
  a_channel :: MetaChannel
  a_trigger :: string
  a_response :: string
  a_status :: AutomationStatus

text \<open>The draft of the form: \<^verbatim>\<open>Omit<AutomationRule, "id" | "status">\<close>.\<close>

record AutomationDraft =
  d_name :: string
  d_platform :: PlatformFilter
  d_channel :: MetaChannel
  d_trigger :: string
  d_response :: string

record ActivityEntry =
  e_id :: string
  e_messageId :: string
  e_platform :: Platform
  e_summary :: string
  e_timestamp :: string
  e_outcome :: Outcome
  e_meta :: "json option"

record AccountCredentials =
  facebookPageId :: string
  facebookToken :: string
  instagramBusinessId :: string
  instagramToken :: string
  webhookUrl :: string

datatype CredentialKey =
  FacebookPageId | FacebookToken | InstagramBusinessId | InstagramToken | WebhookUrl

text \<open>
  The literals of the source that are outside ASCII are given by their UTF-8 bytes.
\<close>

definition initialAutomations :: "AutomationRule list" where
  "initialAutomations =
     [\<lparr>a_id = ''auto-lead'',
       a_name = ''Lead capture (comments)'',
       a_platform = AllPlatforms,
       a_channel = Comment,
       a_trigger = ''contains '' @ [CHR 0x27] @ ''pricing'' @ [CHR 0x27] @ '' OR '' @
                   [CHR 0x27] @ ''cost'' @ [CHR 0x27],
       a_response = ''Thanks for your interest! I just sent you a DM with pricing and onboarding details. '' @
                    [CHR 0xF0, CHR 0x9F, CHR 0x9A, CHR 0x80],
       a_status = Active\<rparr>,
      \<lparr>a_id = ''auto-support'',
       a_name = ''Support escalation (DM)'',
       a_platform = OnPlatform Facebook,
       a_channel = Message,
       a_trigger = ''contains '' @ [CHR 0x27] @ ''help'' @ [CHR 0x27] @ '' OR '' @
                   [CHR 0x27] @ ''issue'' @ [CHR 0x27],
       a_response = ''I'' @ [CHR 0xE2, CHR 0x80, CHR 0x99] @
                    ''m looping in our support team now. Could you share the email tied to your account so we can investigate?'',
       a_status = Active\<rparr>]"

definition defaultCredentials :: AccountCredentials where
  "defaultCredentials =
     \<lparr>facebookPageId = [], facebookToken = [], instagramBusinessId = [],
      instagramToken = [], webhookUrl = []\<rparr>"

definition emptyDraft :: AutomationDraft where
  "emptyDraft =
     \<lparr>d_name = [], d_platform = AllPlatforms, d_channel = Comment, d_trigger = [],
      d_response = []\<rparr>"

definition getChannelFromMessage :: "SocialMessage \<Rightarrow> MetaChannel" where
  "getChannelFromMessage message = (if m_type message = Comment then Comment else Message)"

text \<open>The state of the component \<^verbatim>\<open>Home\<close>: one field for each \<^verbatim>\<open>useState\<close>.\<close>

record Home =
  messages :: "SocialMessage list"
  selectedMessageId :: "string option"
  platformFilter :: PlatformFilter
  statusFilter :: StatusFilter
  searchTerm :: string
  automations :: "AutomationRule list"
  newAutomation :: AutomationDraft
  automationStatus :: AutomationStatus
  activityLog :: "ActivityEntry list"
  credentials :: AccountCredentials
  composerValue :: string
  isSending :: bool
  composerFeedback :: "string option"
  automationFeedback :: "string option"

definition initial_Home :: "SocialMessage list \<Rightarrow> Home" where
  "initial_Home sampleMessages =
     \<lparr>messages = sampleMessages,
      selectedMessageId = (case sampleMessages of [] \<Rightarrow> None | m # ms \<Rightarrow> Some (m_id m)),
      platformFilter = AllPlatforms,
      statusFilter = AllStatuses,
      searchTerm = [],
      automations = initialAutomations,
      newAutomation = emptyDraft,
      automationStatus = Active,
      activityLog = [],
      credentials = defaultCredentials,
      composerValue = [],
      isSending = False,
      composerFeedback = None,
      automationFeedback = None\<rparr>"

text \<open>
  What the page takes from the browser. \<open>null_read p\<close> is the message of the TypeError for
  reading property \<open>p\<close> of \<open>null\<close>; \<open>ToString\<close> is the string conversion of a value that
  is not a string; \<open>JSON_stringify\<close> and \<open>JSON_parse\<close> are the two built-ins at the type the
  page uses them at (the cast of line 145 is unchecked, and the model follows the declared
  type); a throwing \<^verbatim>\<open>JSON.parse\<close> is \<open>Inl\<close>.
\<close>

record Browser =
  null_read :: "string \<Rightarrow> string"
  ToString :: "json \<Rightarrow> string"
  toLowerCase :: "string \<Rightarrow> string"
  JSON_stringify :: "AutomationRule list \<Rightarrow> string"
  JSON_parse :: "string \<Rightarrow> thrown + AutomationRule list"

text \<open>A number in a template literal: the decimal digits of an integer.\<close>

definition digit_char :: "nat \<Rightarrow> char" where
  "digit_char d = ''0123456789'' ! d"

fun digits :: "nat \<Rightarrow> string" where
  "digits n = (if n < 10 then [digit_char n] else digits (n div 10) @ [digit_char (n mod 10)])"

declare digits.simps [simp del]

definition number_text :: "int \<Rightarrow> string" where
  "number_text i = (if i < 0 then ''-'' @ digits (nat (- i)) else digits (nat i))"

section \<open>The dashboard page: derived values and effects\<close>

definition filteredMessages :: "Browser \<Rightarrow> Home \<Rightarrow> SocialMessage list" where
  "filteredMessages br s =
     filter (\<lambda>message.
        (platformFilter s = AllPlatforms \<or> OnPlatform (m_platform message) = platformFilter s) \<and>
        (statusFilter s = AllStatuses \<or> WithStatus (m_status message) = statusFilter s) \<and>
        (searchTerm s = [] \<or>
         sublist (toLowerCase br (searchTerm s)) (toLowerCase br (m_author message)) \<or>
         sublist (toLowerCase br (searchTerm s)) (toLowerCase br (m_snippet message))))
      (messages s)"

definition selectedMessage :: "Home \<Rightarrow> SocialMessage option" where
  "selectedMessage s = find (\<lambda>message. Some (m_id message) = selectedMessageId s) (messages s)"

text \<open>The effect of lines 180-184.\<close>

definition selection_effect :: "Browser \<Rightarrow> Home \<Rightarrow> Home" where
  "selection_effect br s =
     (case filteredMessages br s of
        [] \<Rightarrow> s
      | first # others \<Rightarrow>
          if selectedMessage s = None then s\<lparr>selectedMessageId := Some (m_id first)\<rparr> else s)"

definition storage_key :: string where
  "storage_key = ''agentic-automations-v1''"

text \<open>
  The effect of lines 138-151, given what \<^verbatim>\<open>getItem\<close> returned (\<open>None\<close> for
  \<open>null\<close>). \<open>load_parsed\<close> is the argument of \<^verbatim>\<open>setAutomations\<close> when the effect
  reaches that call.
\<close>

definition load_parsed :: "Browser \<Rightarrow> string option \<Rightarrow> AutomationRule list option" where
  "load_parsed br storedAutomations =
     (case storedAutomations of
        None \<Rightarrow> None
      | Some stored \<Rightarrow>
          if stored = [] then None
          else (case JSON_parse br stored of
                  Inl error \<Rightarrow> None
                | Inr parsed \<Rightarrow> Some parsed))"

definition load_effect :: "Browser \<Rightarrow> string option \<Rightarrow> Home \<Rightarrow> Home" where
  "load_effect br storedAutomations s =
     (case load_parsed br storedAutomations of
        None \<Rightarrow> s
      | Some parsed \<Rightarrow> s\<lparr>automations := parsed\<rparr>)"

text \<open>The effect of lines 153-160 on the local storage, a map from keys to strings.\<close>

definition persist_effect :: "Browser \<Rightarrow> Home \<Rightarrow> (string \<rightharpoonup> string) \<Rightarrow> (string \<rightharpoonup> string)" where
  "persist_effect br s localStorage =
     localStorage(storage_key \<mapsto> JSON_stringify br (automations s))"

text \<open>
  Loading the page: the component starts from its initial state and its effects run once
  each, in the order of the source, as in a production build. The load effect reads the
  storage before the persist effect of the first render writes the initial rules over it;
  when the load effect has set the rules, the component renders again and the persist
  effect writes them. \<^verbatim>\<open>setItem\<close> is taken to succeed.
\<close>

definition mount ::
  "Browser \<Rightarrow> SocialMessage list \<Rightarrow> (string \<rightharpoonup> string) \<Rightarrow> Home \<times> (string \<rightharpoonup> string)" where
  "mount br sampleMessages localStorage =
     (let s0 = initial_Home sampleMessages;
          s1 = load_effect br (localStorage storage_key) s0;
          stored1 = persist_effect br s0 localStorage;
          s2 = selection_effect br s1
      in (s2,
          case load_parsed br (localStorage storage_key) of
            None \<Rightarrow> stored1
          | Some parsed \<Rightarrow> persist_effect br s2 stored1))"


section \<open>The dashboard page: handlers\<close>

definition handleCredentialChange :: "CredentialKey \<Rightarrow> string \<Rightarrow> Home \<Rightarrow> Home" where
  "handleCredentialChange key v s =
     s\<lparr>credentials :=
         (case key of
            FacebookPageId \<Rightarrow> (credentials s)\<lparr>facebookPageId := v\<rparr>
          | FacebookToken \<Rightarrow> (credentials s)\<lparr>facebookToken := v\<rparr>
          | InstagramBusinessId \<Rightarrow> (credentials s)\<lparr>instagramBusinessId := v\<rparr>
          | InstagramToken \<Rightarrow> (credentials s)\<lparr>instagramToken := v\<rparr>
          | WebhookUrl \<Rightarrow> (credentials s)\<lparr>webhookUrl := v\<rparr>)\<rparr>"

definition addAutomation :: "int \<Rightarrow> Home \<Rightarrow> Home" where
  "addAutomation Date_now s =
     (if d_name (newAutomation s) = [] \<or> d_trigger (newAutomation s) = [] \<or>
         d_response (newAutomation s) = []
      then s\<lparr>automationFeedback :=
               Some ''Please provide a name, trigger, and response for the automation.''\<rparr>
      else
        let rule = \<lparr>a_id = ''automation-'' @ number_text Date_now,
                    a_name = d_name (newAutomation s),
                    a_platform = d_platform (newAutomation s),
                    a_channel = d_channel (newAutomation s),
                    a_trigger = d_trigger (newAutomation s),
                    a_response = d_response (newAutomation s),
                    a_status = automationStatus s\<rparr>
        in s\<lparr>automations := rule # automations s,
              newAutomation := emptyDraft,
              automationFeedback :=
                Some (''Automation '' @ [CHR 0x22] @ a_name rule @ [CHR 0x22] @ '' created.'')\<rparr>)"

definition toggleAutomationStatus :: "string \<Rightarrow> Home \<Rightarrow> Home" where
  "toggleAutomationStatus ident s =
     s\<lparr>automations :=
         map (\<lambda>rule. if a_id rule = ident
                      then rule\<lparr>a_status := (if a_status rule = Active then Paused else Active)\<rparr>
                      else rule)
           (automations s)\<rparr>"

definition deleteAutomation :: "string \<Rightarrow> Home \<Rightarrow> Home" where
  "deleteAutomation ident s =
     s\<lparr>automations := filter (\<lambda>rule. a_id rule \<noteq> ident) (automations s)\<rparr>"

text \<open>
  What \<^verbatim>\<open>fetch\<close> resolves to: \<open>resp_ok\<close> is \<^verbatim>\<open>response.ok\<close> (a status from 200 to
  299) and \<open>resp_json\<close> the outcome of \<^verbatim>\<open>response.json()\<close>.
\<close>

record FetchResponse =
  resp_ok :: bool
  resp_json :: "thrown + json"

text \<open>
  The object of lines 278-292 as \<^verbatim>\<open>JSON.stringify\<close> sends it: a property whose value
  is \<open>undefined\<close> is left out.
\<close>

definition payload :: "SocialMessage \<Rightarrow> AccountCredentials \<Rightarrow> string \<Rightarrow> json" where
  "payload selected creds reply =
     JObj ([(''platform'', JStr (platform_text (m_platform selected))),
            (''targetId'', JStr (m_id selected)),
            (''message'', JStr reply),
            (''channel'', JStr (channel_text (getChannelFromMessage selected))),
            (''dryRun'', JBool True)] @
           (if m_platform selected = Instagram
            then [(''instagramBusinessAccountId'', JStr (instagramBusinessId creds))]
            else []) @
           [(''accessToken'',
             JStr (if m_platform selected = Facebook then facebookToken creds
                   else instagramToken creds))])"

text \<open>The message of the Error of lines 305-308.\<close>

definition rejection_message :: "Browser \<Rightarrow> json \<Rightarrow> string" where
  "rejection_message br data =
     (case (if truthy data then field_of data ''error'' else None) of
        None \<Rightarrow> ''Meta API rejected the request. Double-check credentials.''
      | Some reason \<Rightarrow>
          if truthy reason
          then (case reason of JStr text \<Rightarrow> text | other \<Rightarrow> ToString br other)
          else ''Meta API rejected the request. Double-check credentials.'')"

text \<open>
  Lines 278-309, the \<^verbatim>\<open>try\<close> block up to its check: the data of an accepted reply, or
  the value thrown. \<open>fetch\<close> takes the address and the body sent.
\<close>

definition dispatch ::
  "Browser \<Rightarrow> (string \<Rightarrow> json \<Rightarrow> thrown + FetchResponse) \<Rightarrow> SocialMessage \<Rightarrow>
     AccountCredentials \<Rightarrow> string \<Rightarrow> thrown + json" where
  "dispatch br fetch selected creds reply =
     (case fetch ''/api/respond'' (payload selected creds reply) of
        Inl error \<Rightarrow> Inl error
      | Inr resp \<Rightarrow>
          (case resp_json resp of
             Inl error \<Rightarrow> Inl error
           | Inr data \<Rightarrow>
               if \<not> resp_ok resp then Inl (JsError (rejection_message br data))
               else if data = JNull then Inl (JsError (null_read br ''ok''))
               else if \<not> ToBoolean (field_of data ''ok'')
               then Inl (JsError (rejection_message br data))
               else Inr data))"

text \<open>\<^verbatim>\<open>data.result?.dryRun\<close> as a condition, and \<^verbatim>\<open>data.result ?? undefined\<close>.\<close>

definition result_dryRun :: "json \<Rightarrow> bool" where
  "result_dryRun data =
     (case field_of data ''result'' of
        None \<Rightarrow> False
      | Some res \<Rightarrow> if res = JNull then False else ToBoolean (field_of res ''dryRun''))"

definition result_meta :: "json \<Rightarrow> json option" where
  "result_meta data =
     (case field_of data ''result'' of
        None \<Rightarrow> None
      | Some res \<Rightarrow> if res = JNull then None else Some res)"

text \<open>
  \<^verbatim>\<open>handleSendReply\<close> in its two parts: what runs before the first \<^verbatim>\<open>await\<close>, and
  what runs once the exchange has settled, with the selected message of the render that
  started it. \<open>Date_now\<close> and \<open>Date_iso\<close> are the clock readings \<^verbatim>\<open>Date.now()\<close> and
  \<^verbatim>\<open>new Date().toISOString()\<close>.
\<close>

definition handleSendReply_begin :: "Home \<Rightarrow> Home" where
  "handleSendReply_begin s = s\<lparr>isSending := True, composerFeedback := None\<rparr>"

definition handleSendReply_settle ::
  "int \<Rightarrow> string \<Rightarrow> SocialMessage \<Rightarrow> thrown + json \<Rightarrow> Home \<Rightarrow> Home" where
  "handleSendReply_settle Date_now Date_iso selected attempt s =
     (case attempt of
        Inr data \<Rightarrow>
          s\<lparr>messages :=
               map (\<lambda>message. if m_id message = m_id selected
                               then message\<lparr>m_status := Responded\<rparr> else message)
                 (messages s),
            activityLog :=
              \<lparr>e_id = ''log-'' @ number_text Date_now,
               e_messageId = m_id selected,
               e_platform = m_platform selected,
               e_summary = ''Sent '' @ platform_text (m_platform selected) @ '' '' @
                           channel_text (m_type selected) @ '' reply'',
               e_timestamp = Date_iso,
               e_outcome = (if result_dryRun data then Scheduled else Sent),
               e_meta = result_meta data\<rparr> # activityLog s,
            composerValue := [],
            composerFeedback :=
              Some (if result_dryRun data
                    then ''Reply simulated successfully (dry run). Provide a Meta token to send for real.''
                    else ''Reply dispatched successfully.''),
            isSending := False\<rparr>
      | Inl error \<Rightarrow>
          s\<lparr>activityLog :=
              \<lparr>e_id = ''log-error-'' @ number_text Date_now,
               e_messageId = m_id selected,
               e_platform = m_platform selected,
               e_summary = ''Failed to reply: '' @
                           (case error of JsError msg \<Rightarrow> msg | NonError v \<Rightarrow> ''Unknown error''),
               e_timestamp = Date_iso,
               e_outcome = Failed,
               e_meta = None\<rparr> # activityLog s,
            composerFeedback :=
              Some (case error of
                      JsError msg \<Rightarrow> msg
                    | NonError v \<Rightarrow> ''Unexpected error while sending reply.''),
            isSending := False\<rparr>)"

definition handleSendReply ::
  "Browser \<Rightarrow> (string \<Rightarrow> json \<Rightarrow> thrown + FetchResponse) \<Rightarrow> int \<Rightarrow> string \<Rightarrow>
     string \<Rightarrow> Home \<Rightarrow> Home" where
  "handleSendReply br fetch Date_now Date_iso reply s =
     (case selectedMessage s of
        None \<Rightarrow> s
      | Some selected \<Rightarrow>
          handleSendReply_settle Date_now Date_iso selected
            (dispatch br fetch selected (credentials s) reply)
            (handleSendReply_begin s))"

section \<open>The dashboard page as a transition system\<close>

text \<open>
  Every way the component's state changes: the handlers wired in the markup and the
  effects. A click on a quick reply and typing in the composer both call
  \<^verbatim>\<open>setComposerValue\<close>; a click on an inbox row calls \<^verbatim>\<open>setSelectedMessageId\<close>.
  \<open>SendClick\<close> is the part of \<^verbatim>\<open>handleSendReply\<close> before its first \<^verbatim>\<open>await\<close>, behind
  the button's \<^verbatim>\<open>disabled\<close> condition, and \<open>SendSettled\<close> the rest of it, which runs
  later with the message selected when the send began.
\<close>

datatype Event =
    CredentialInput CredentialKey string
  | PlatformFilterClick PlatformFilter
  | StatusFilterClick StatusFilter
  | SearchInput string
  | MessageClick string
  | DraftNameInput string
  | DraftTriggerInput string
  | DraftPlatformSelect PlatformFilter
  | DraftChannelSelect MetaChannel
  | DraftStatusSelect AutomationStatus
  | DraftResponseInput string
  | AddAutomationClick int
  | ToggleClick string
  | DeleteClick string
  | ComposerSet string
  | SendClick
  | SendSettled int string SocialMessage "thrown + json"
  | StorageLoaded "string option"
  | SelectionEffect

fun step :: "Browser \<Rightarrow> Event \<Rightarrow> Home \<Rightarrow> Home" where
  "step br (CredentialInput key v) s = handleCredentialChange key v s"
| "step br (PlatformFilterClick f) s = s\<lparr>platformFilter := f\<rparr>"
| "step br (StatusFilterClick f) s = s\<lparr>statusFilter := f\<rparr>"
| "step br (SearchInput v) s = s\<lparr>searchTerm := v\<rparr>"
| "step br (MessageClick ident) s = s\<lparr>selectedMessageId := Some ident\<rparr>"
| "step br (DraftNameInput v) s = s\<lparr>newAutomation := (newAutomation s)\<lparr>d_name := v\<rparr>\<rparr>"
| "step br (DraftTriggerInput v) s = s\<lparr>newAutomation := (newAutomation s)\<lparr>d_trigger := v\<rparr>\<rparr>"
| "step br (DraftPlatformSelect v) s = s\<lparr>newAutomation := (newAutomation s)\<lparr>d_platform := v\<rparr>\<rparr>"
| "step br (DraftChannelSelect v) s = s\<lparr>newAutomation := (newAutomation s)\<lparr>d_channel := v\<rparr>\<rparr>"
| "step br (DraftStatusSelect v) s = s\<lparr>automationStatus := v\<rparr>"
| "step br (DraftResponseInput v) s = s\<lparr>newAutomation := (newAutomation s)\<lparr>d_response := v\<rparr>\<rparr>"
| "step br (AddAutomationClick Date_now) s = addAutomation Date_now s"
| "step br (ToggleClick ident) s = toggleAutomationStatus ident s"
| "step br (DeleteClick ident) s = deleteAutomation ident s"
| "step br (ComposerSet v) s = s\<lparr>composerValue := v\<rparr>"
| "step br SendClick s =
     (if composerValue s = [] \<or> isSending s then s
      else (case selectedMessage s of None \<Rightarrow> s | Some selected \<Rightarrow> handleSendReply_begin s))"
| "step br (SendSettled Date_now Date_iso selected attempt) s =
     handleSendReply_settle Date_now Date_iso selected attempt s"
| "step br (StorageLoaded storedAutomations) s = load_effect br storedAutomations s"
| "step br SelectionEffect s = selection_effect br s"

definition run :: "Browser \<Rightarrow> Event list \<Rightarrow> Home \<Rightarrow> Home" where
  "run br events s = fold (step br) events s"

section \<open>Auxiliary notions and sample inputs\<close>

text \<open>The condition of lines 12-17 of the route.\<close>

definition required_missing :: "json \<Rightarrow> bool" where
  "required_missing body \<longleftrightarrow>
     \<not> ToBoolean (field_of body ''platform'') \<or> \<not> ToBoolean (field_of body ''targetId'') \<or>
     \<not> ToBoolean (field_of body ''message'') \<or> \<not> ToBoolean (field_of body ''channel'')"

text \<open>Two messages that differ at most in their status.\<close>

definition same_but_status :: "SocialMessage \<Rightarrow> SocialMessage \<Rightarrow> bool" where
  "same_but_status before after \<longleftrightarrow> after = before\<lparr>m_status := m_status after\<rparr>"

text \<open>The TypeError message of V8, the engine the route runs on.\<close>

definition v8_null_read :: "string \<Rightarrow> string" where
  "v8_null_read p =
     ''Cannot read properties of null (reading '' @ [CHR 0x27] @ p @ [CHR 0x27] @ '')''"

text \<open>An endpoint for the sample helpers, which stands for the outbound call.\<close>

definition sample_endpoint :: "RespondRequest \<Rightarrow> string" where
  "sample_endpoint rq =
     (case rq_targetId rq of Some (JStr target) \<Rightarrow> ''/'' @ target @ ''/comments'' | other \<Rightarrow> ''/'')"

text \<open>A helper that answers every request with a dry-run result and makes no call.\<close>

definition sample_helper :: "RespondRequest \<Rightarrow> (thrown + json) \<times> string list" where
  "sample_helper rq =
     (Inr (JObj [(''dryRun'', JBool True), (''endpoint'', JStr (sample_endpoint rq))]), [])"

text \<open>
  The modelled \<open>postMetaResponse\<close> with sample parameters: no token in the environment, a
  descriptor that names the endpoint, a remote API that accepts every call, and an Error
  for the Instagram request without a business account id.
\<close>

definition sample_describe :: "string \<Rightarrow> (string \<times> json) list" where
  "sample_describe path = [(''endpoint'', JStr path)]"

definition sample_remote :: "string \<Rightarrow> thrown + json" where
  "sample_remote path = Inr (JObj [(''id'', JStr ''reply-1'')])"

definition sample_no_account :: thrown where
  "sample_no_account = JsError ''instagramBusinessAccountId is required for Instagram replies''"

definition modelled_helper :: "RespondRequest \<Rightarrow> (thrown + json) \<times> string list" where
  "modelled_helper =
     postMetaResponse None sample_endpoint sample_describe sample_remote sample_no_account"

text \<open>A helper that throws after one outbound call.\<close>

definition failing_helper :: "RespondRequest \<Rightarrow> (thrown + json) \<times> string list" where
  "failing_helper rq = (Inl (JsError ''Graph API request failed''), [sample_endpoint rq])"

definition sample_body :: json where
  "sample_body =
     JObj [(''platform'', JStr ''facebook''), (''targetId'', JStr ''123''),
           (''message'', JStr ''hi''), (''channel'', JStr ''comment''),
           (''dryRun'', JBool True)]"

text \<open>An Instagram request that carries a business account id.\<close>

definition instagram_body :: json where
  "instagram_body =
     JObj [(''platform'', JStr ''instagram''), (''targetId'', JStr ''msg-2''),
           (''message'', JStr ''hello''), (''channel'', JStr ''message''),
           (''dryRun'', JBool True),
           (''instagramBusinessAccountId'', JStr ''17841400000000000''),
           (''accessToken'', JStr '''')]"

text \<open>
  The relay as the page reaches it through \<^verbatim>\<open>fetch\<close>: the body sent is parsed back to
  the value it was made of, and the response carries the status and body of the handler.
\<close>

definition relay_fetch ::
  "(RespondRequest \<Rightarrow> (thrown + json) \<times> 'c list) \<Rightarrow> string \<Rightarrow> json \<Rightarrow> thrown + FetchResponse" where
  "relay_fetch helper url sent =
     Inr \<lparr>resp_ok = (200 \<le> res_status (response (POST v8_null_read helper (Inr sent))) \<and>
                     res_status (response (POST v8_null_read helper (Inr sent))) < 300),
          resp_json = Inr (res_body (response (POST v8_null_read helper (Inr sent))))\<rparr>"

definition sample_message :: SocialMessage where
  "sample_message =
     \<lparr>m_id = ''msg-1'', m_platform = Facebook, m_type = Comment, m_author = ''Ada Byron'',
      m_avatar = ''https://i.pravatar.cc/100'', m_snippet = ''What is the pricing?'',
      m_timestamp = ''2024-05-01T10:00:00.000Z'', m_status = Unread, m_intent = None\<rparr>"

definition other_message :: SocialMessage where
  "other_message =
     \<lparr>m_id = ''msg-2'', m_platform = Instagram, m_type = Message, m_author = ''Grace Hopper'',
      m_avatar = ''https://i.pravatar.cc/101'', m_snippet = ''I need help'',
      m_timestamp = ''2024-05-01T11:00:00.000Z'', m_status = Snoozed, m_intent = Some ''support''\<rparr>"

definition sample_rule :: AutomationRule where
  "sample_rule =
     \<lparr>a_id = ''automation-7'', a_name = ''Greeting'', a_platform = AllPlatforms,
      a_channel = Comment, a_trigger = ''contains hello'', a_response = ''Hello!'',
      a_status = Active\<rparr>"

text \<open>
  A browser for the sample inputs: its JSON built-ins know the text of one rule list,
  the initial rules with \<open>sample_rule\<close> in front, and reject every other text.
\<close>

definition sample_browser :: Browser where
  "sample_browser =
     \<lparr>null_read = v8_null_read,
      ToString = (\<lambda>v. ''[object Object]''),
      toLowerCase = (\<lambda>text. text),
      JSON_stringify = (\<lambda>rules. if rules = sample_rule # initialAutomations then ''[sample]'' else ''[]''),
      JSON_parse = (\<lambda>text. if text = ''[sample]'' then Inr (sample_rule # initialAutomations)
                             else Inl (JsError ''Unexpected token''))\<rparr>"

definition sample_draft :: AutomationDraft where
  "sample_draft =
     \<lparr>d_name = ''Greeting'', d_platform = AllPlatforms, d_channel = Comment,
      d_trigger = ''contains hello'', d_response = ''Hello!''\<rparr>"

definition sample_Home :: Home where
  "sample_Home = initial_Home [sample_message, other_message]"

section \<open>The JSON text of a rule list\<close>

text \<open>
  \<^verbatim>\<open>JSON.stringify\<close> and \<^verbatim>\<open>JSON.parse\<close> are parameters of the page (\<open>Browser\<close>). Here
  they are written out at the one type the page uses them at, so that what a reload does
  can be stated without a premise on them. \<open>JSON_stringify_rules\<close> is the text that
  ECMA-262 gives for a list of rules, without indentation: every string goes through
  \<^verbatim>\<open>QuoteJSONString\<close> (a string is held by its UTF-8 bytes, and every byte from 0x20 on
  other than the quote and the backslash is written as it is), and the keys come in the
  order of the interface \<^verbatim>\<open>AutomationRule\<close> (the object made by \<^verbatim>\<open>addAutomation\<close> has
  \<^verbatim>\<open>status\<close> in second place, which changes the text and not the rule read back).
  \<open>JSON_parse_rules\<close> reads the texts of this form, with any JSON escape of a character
  below 0x80 inside a string, and refuses every other text, as \<^verbatim>\<open>JSON.parse\<close> refuses a
  text that is not JSON.
\<close>




























section \<open>Facts about the relay\<close>

lemma POST_rejected_parse:
  "POST nr pmr (Inl error) = \<lparr>response = POST_catch error, pmr_calls = [], network = []\<rparr>"
  by (simp add: POST_def POST_try_def)

lemma POST_null_body:
  "POST nr pmr (Inr JNull) =
     \<lparr>response = POST_catch (JsError (nr ''platform'')), pmr_calls = [], network = []\<rparr>"
  by (simp add: POST_def POST_try_def)

lemma POST_required:
  assumes "body \<noteq> JNull" and "required_missing body"
  shows "POST nr pmr (Inr body) =
     \<lparr>response = \<lparr>res_status = 400,
         res_body = JObj [(''ok'', JBool False),
           (''error'', JStr ''platform, targetId, message, and channel are required properties.'')]\<rparr>,
      pmr_calls = [], network = []\<rparr>"
  using assms unfolding POST_def POST_try_def NextResponse_json_def required_missing_def
  by simp

lemma POST_channel:
  assumes "body \<noteq> JNull" and "\<not> required_missing body"
    and "field_of body ''channel'' \<noteq> Some (JStr ''comment'')"
    and "field_of body ''channel'' \<noteq> Some (JStr ''message'')"
  shows "POST nr pmr (Inr body) =
     \<lparr>response = \<lparr>res_status = 400,
         res_body = JObj [(''ok'', JBool False),
           (''error'', JStr ''channel must be comment or message'')]\<rparr>,
      pmr_calls = [], network = []\<rparr>"
  using assms unfolding POST_def POST_try_def NextResponse_json_def required_missing_def
  by simp

lemma POST_forwarded:
  assumes "\<not> required_missing body"
    and "field_of body ''channel'' = Some (JStr ''comment'') \<or>
         field_of body ''channel'' = Some (JStr ''message'')"
  shows "POST nr pmr (Inr body) =
     \<lparr>response = (case fst (pmr (respond_request body)) of
                     Inl error \<Rightarrow> POST_catch error
                   | Inr result \<Rightarrow>
                       \<lparr>res_status = 200,
                        res_body = JObj [(''ok'', JBool True), (''result'', result)]\<rparr>),
      pmr_calls = [respond_request body],
      network = snd (pmr (respond_request body))\<rparr>"
proof -
  have "body \<noteq> JNull"
    using assms(1) by (auto simp: required_missing_def)
  then show ?thesis
    using assms unfolding POST_def POST_try_def NextResponse_json_def required_missing_def
    by (cases "pmr (respond_request body)"; cases "fst (pmr (respond_request body))") auto
qed

lemma absent_required_missing:
  "field_of body ''platform'' = None \<or> field_of body ''targetId'' = None \<or>
   field_of body ''message'' = None \<or> field_of body ''channel'' = None \<Longrightarrow>
   required_missing body"
  unfolding required_missing_def by auto

lemma map_of_filter_other: "map_of (filter (\<lambda>kv. fst kv \<noteq> f) kvs) f = None"
  by (induction kvs) auto

text \<open>
  The \<^verbatim>\<open>try\<close> block throws in three ways and no other: \<open>request.json()\<close> rejects,
  the body is \<open>null\<close>, or the helper throws for a request that passed both checks.
\<close>

lemma POST_try_throws_iff:
  "fst (POST_try nr pmr request_json) = Inl error \<longleftrightarrow>
     request_json = Inl error \<or>
     (request_json = Inr JNull \<and> error = JsError (nr ''platform'')) \<or>
     (\<exists>body. request_json = Inr body \<and> \<not> required_missing body \<and>
        (field_of body ''channel'' = Some (JStr ''comment'') \<or>
         field_of body ''channel'' = Some (JStr ''message'')) \<and>
        fst (pmr (respond_request body)) = Inl error)"
proof (cases request_json)
  case (Inl thrown)
  then show ?thesis by (auto simp: POST_try_def)
next
  case (Inr body)
  show ?thesis
  proof (cases "body = JNull")
    case True
    with Inr show ?thesis
      by (auto simp: POST_try_def required_missing_def)
  next
    case nonnull: False
    show ?thesis
    proof (cases "required_missing body")
      case True
      then have "fst (POST_try nr pmr (Inr body)) \<noteq> Inl error"
        using nonnull by (simp add: POST_try_def required_missing_def)
      with Inr nonnull True show ?thesis
        by simp
    next
      case present: False
      show ?thesis
      proof (cases "field_of body ''channel'' = Some (JStr ''comment'') \<or>
                    field_of body ''channel'' = Some (JStr ''message'')")
        case True
        with Inr nonnull present show ?thesis
          unfolding POST_try_def required_missing_def
          by (cases "pmr (respond_request body)"; cases "fst (pmr (respond_request body))") auto
      next
        case False
        then have "fst (POST_try nr pmr (Inr body)) \<noteq> Inl error"
          using nonnull present by (simp add: POST_try_def required_missing_def)
        with Inr nonnull False show ?thesis
          by simp
      qed
    qed
  qed
qed

text \<open>The handler answers with one of three statuses.\<close>

lemma POST_status: "res_status (response (POST nr pmr request_json)) \<in> {200, 400, 500}"
proof (cases request_json)
  case (Inl error)
  then show ?thesis
    by (simp add: POST_rejected_parse POST_catch_def NextResponse_json_def)
next
  case (Inr body)
  show ?thesis
  proof (cases "body = JNull")
    case True
    with Inr show ?thesis
      by (simp add: POST_null_body POST_catch_def NextResponse_json_def)
  next
    case nonnull: False
    show ?thesis
    proof (cases "required_missing body")
      case True
      with Inr nonnull show ?thesis by (simp add: POST_required)
    next
      case present: False
      show ?thesis
      proof (cases "field_of body ''channel'' = Some (JStr ''comment'') \<or>
                    field_of body ''channel'' = Some (JStr ''message'')")
        case True
        with Inr present show ?thesis
          by (simp add: POST_forwarded POST_catch_def NextResponse_json_def split: sum.split)
      next
        case False
        with Inr nonnull present show ?thesis by (simp add: POST_channel)
      qed
    qed
  qed
qed

text \<open>
  C1 (amended). For every request whose body parses as JSON to a value other than
  \<open>null\<close> and lacks one of the four required fields \<open>platform\<close>, \<open>targetId\<close>, \<open>message\<close>,
  \<open>channel\<close>, or whose \<open>channel\<close> is a value other than \<open>"comment"\<close> and \<open>"message"\<close>,
  the handler returns status 400 with a body \<open>{ok: false, error: <string>}\<close>, and calls
  neither \<open>postMetaResponse\<close> nor the network.
\<close>

theorem C1_missing_field_or_bad_channel_is_400:
  assumes "body \<noteq> JNull"
    and "field_of body ''platform'' = None \<or> field_of body ''targetId'' = None \<or>
         field_of body ''message'' = None \<or> field_of body ''channel'' = None \<or>
         (field_of body ''channel'' \<noteq> Some (JStr ''comment'') \<and>
          field_of body ''channel'' \<noteq> Some (JStr ''message''))"
  shows "res_status (response (POST nr pmr (Inr body))) = 400 \<and>
         (\<exists>e. res_body (response (POST nr pmr (Inr body))) =
                JObj [(''ok'', JBool False), (''error'', JStr e)]) \<and>
         pmr_calls (POST nr pmr (Inr body)) = [] \<and>
         network (POST nr pmr (Inr body)) = []"
proof (cases "required_missing body")
  case True
  show ?thesis
    by (simp add: POST_required [OF assms(1) True])
next
  case False
  then have "field_of body ''channel'' \<noteq> Some (JStr ''comment'')"
    and "field_of body ''channel'' \<noteq> Some (JStr ''message'')"
    using assms(2) absent_required_missing [of body] by blast+
  then show ?thesis
    by (simp add: POST_channel [OF assms(1) False])
qed

text \<open>
  The theorem at a body that has a platform and nothing else, and at the sample request
  with \<open>"email"\<close> for its channel.
\<close>

theorem C1_witness:
  "JObj [(''platform'', JStr ''facebook'')] \<noteq> JNull \<and>
   field_of (JObj [(''platform'', JStr ''facebook'')]) ''targetId'' = None \<and>
   res_status (response (POST v8_null_read sample_helper
       (Inr (JObj [(''platform'', JStr ''facebook'')])))) = 400 \<and>
   pmr_calls (POST v8_null_read sample_helper
       (Inr (JObj [(''platform'', JStr ''facebook'')]))) = [] \<and>
   field_of (JObj [(''platform'', JStr ''facebook''), (''targetId'', JStr ''123''),
       (''message'', JStr ''hi''), (''channel'', JStr ''email'')]) ''channel'' =
     Some (JStr ''email'') \<and>
   res_status (response (POST v8_null_read sample_helper
       (Inr (JObj [(''platform'', JStr ''facebook''), (''targetId'', JStr ''123''),
                   (''message'', JStr ''hi''), (''channel'', JStr ''email'')])))) = 400 \<and>
   pmr_calls (POST v8_null_read sample_helper
       (Inr (JObj [(''platform'', JStr ''facebook''), (''targetId'', JStr ''123''),
                   (''message'', JStr ''hi''), (''channel'', JStr ''email'')]))) = []"
  using C1_missing_field_or_bad_channel_is_400
      [of "JObj [(''platform'', JStr ''facebook'')]" v8_null_read sample_helper]
    C1_missing_field_or_bad_channel_is_400
      [of "JObj [(''platform'', JStr ''facebook''), (''targetId'', JStr ''123''),
                 (''message'', JStr ''hi''), (''channel'', JStr ''email'')]"
          v8_null_read sample_helper]
  by simp

text \<open>
  C1 as stated fails at a body that is not JSON, which has no field at all: \<open>request.json()\<close>
  rejects and the handler answers 500. It fails as well at the body \<open>null\<close>: that one
  parses and has none of the four fields, the read of \<open>body.platform\<close> throws, and the
  handler answers 500 with the message of the TypeError.
\<close>

theorem C1_unparsed_or_null_body_counterexample:
  "res_status (response (POST v8_null_read sample_helper
       (Inl (JsError ''Unexpected end of JSON input'')))) = 500 \<and>
   response (POST v8_null_read sample_helper (Inr JNull)) =
     \<lparr>res_status = 500,
      res_body = JObj [(''ok'', JBool False),
        (''error'', JStr (v8_null_read ''platform''))]\<rparr>"
  by (simp add: POST_rejected_parse POST_null_body POST_catch_def NextResponse_json_def)

text \<open>
  C2 (amended). For every request in which the four required fields are present with
  truthy values (a non-empty string, for one), \<open>channel\<close> is \<open>"comment"\<close> or \<open>"message"\<close>,
  \<open>dryRun\<close> is \<open>true\<close>, and the platform is not \<open>"instagram"\<close> or
  \<open>instagramBusinessAccountId\<close> is supplied with a truthy value, the relay returns status
  200 with \<open>ok: true\<close> and the simulated result \<open>{dryRun: true, ...}\<close> describing the
  call, after one call of \<open>postMetaResponse\<close> and no outbound network request.
\<close>

theorem C2_dry_run_makes_no_outbound_call:
  assumes "ToBoolean (field_of body ''platform'')" and "ToBoolean (field_of body ''targetId'')"
    and "ToBoolean (field_of body ''message'')"
    and "field_of body ''channel'' = Some (JStr ''comment'') \<or>
         field_of body ''channel'' = Some (JStr ''message'')"
    and "field_of body ''dryRun'' = Some (JBool True)"
    and "field_of body ''platform'' \<noteq> Some (JStr ''instagram'') \<or>
         ToBoolean (field_of body ''instagramBusinessAccountId'')"
  shows "POST nr (postMetaResponse token endpoint describe remote no_account) (Inr body) =
         \<lparr>response = \<lparr>res_status = 200,
             res_body = JObj [(''ok'', JBool True),
               (''result'', JObj ((''dryRun'', JBool True) #
                                  describe (endpoint (respond_request body))))]\<rparr>,
          pmr_calls = [respond_request body], network = []\<rparr>"
proof -
  have present: "\<not> required_missing body"
    using assms(1-4) by (auto simp: required_missing_def)
  have dry: "rq_dryRun (respond_request body) = Some (JBool True)"
    using assms(5) by (simp add: respond_request_def)
  have selected: "\<not> (rq_platform (respond_request body) = Some (JStr ''instagram'') \<and>
      \<not> ToBoolean (rq_instagramBusinessAccountId (respond_request body)))"
    using assms(6) by (auto simp: respond_request_def)
  have "postMetaResponse token endpoint describe remote no_account (respond_request body) =
      (Inr (JObj ((''dryRun'', JBool True) # describe (endpoint (respond_request body)))), [])"
    unfolding postMetaResponse_def using dry selected by simp
  then show ?thesis
    by (simp add: POST_forwarded [OF present assms(4)])
qed

text \<open>
  The theorem at the request of the spec's end-to-end example, and at an Instagram request
  that carries a business account id.
\<close>

theorem C2_witness:
  "ToBoolean (field_of sample_body ''platform'') \<and>
   ToBoolean (field_of sample_body ''targetId'') \<and>
   ToBoolean (field_of sample_body ''message'') \<and>
   field_of sample_body ''channel'' = Some (JStr ''comment'') \<and>
   field_of sample_body ''dryRun'' = Some (JBool True) \<and>
   field_of sample_body ''platform'' \<noteq> Some (JStr ''instagram'') \<and>
   response (POST v8_null_read modelled_helper (Inr sample_body)) =
     \<lparr>res_status = 200,
      res_body = JObj [(''ok'', JBool True),
        (''result'', JObj [(''dryRun'', JBool True), (''endpoint'', JStr ''/123/comments'')])]\<rparr> \<and>
   network (POST v8_null_read modelled_helper (Inr sample_body)) = [] \<and>
   ToBoolean (field_of instagram_body ''instagramBusinessAccountId'') \<and>
   response (POST v8_null_read modelled_helper (Inr instagram_body)) =
     \<lparr>res_status = 200,
      res_body = JObj [(''ok'', JBool True),
        (''result'', JObj [(''dryRun'', JBool True), (''endpoint'', JStr ''/msg-2/comments'')])]\<rparr> \<and>
   network (POST v8_null_read modelled_helper (Inr instagram_body)) = []"
proof -
  have first: "ToBoolean (field_of sample_body ''platform'')"
    "ToBoolean (field_of sample_body ''targetId'')"
    "ToBoolean (field_of sample_body ''message'')"
    "field_of sample_body ''channel'' = Some (JStr ''comment'')"
    "field_of sample_body ''dryRun'' = Some (JBool True)"
    "field_of sample_body ''platform'' \<noteq> Some (JStr ''instagram'')"
    by (simp_all add: sample_body_def)
  have second: "ToBoolean (field_of instagram_body ''platform'')"
    "ToBoolean (field_of instagram_body ''targetId'')"
    "ToBoolean (field_of instagram_body ''message'')"
    "field_of instagram_body ''channel'' = Some (JStr ''message'')"
    "field_of instagram_body ''dryRun'' = Some (JBool True)"
    "ToBoolean (field_of instagram_body ''instagramBusinessAccountId'')"
    by (simp_all add: instagram_body_def)
  have facebook: "POST v8_null_read modelled_helper (Inr sample_body) =
      \<lparr>response = \<lparr>res_status = 200,
          res_body = JObj [(''ok'', JBool True),
            (''result'', JObj [(''dryRun'', JBool True), (''endpoint'', JStr ''/123/comments'')])]\<rparr>,
       pmr_calls = [respond_request sample_body], network = []\<rparr>"
    using C2_dry_run_makes_no_outbound_call
      [of sample_body v8_null_read None sample_endpoint sample_describe sample_remote
          sample_no_account] first
    by (simp add: modelled_helper_def sample_endpoint_def sample_describe_def
        respond_request_def sample_body_def)
  have instagram: "POST v8_null_read modelled_helper (Inr instagram_body) =
      \<lparr>response = \<lparr>res_status = 200,
          res_body = JObj [(''ok'', JBool True),
            (''result'', JObj [(''dryRun'', JBool True), (''endpoint'', JStr ''/msg-2/comments'')])]\<rparr>,
       pmr_calls = [respond_request instagram_body], network = []\<rparr>"
    using C2_dry_run_makes_no_outbound_call
      [of instagram_body v8_null_read None sample_endpoint sample_describe sample_remote
          sample_no_account] second
    by (simp add: modelled_helper_def sample_endpoint_def sample_describe_def
        respond_request_def instagram_body_def)
  show ?thesis
    using first second(6) by (simp add: facebook instagram)
qed

text \<open>
  C2 as stated fails at two requests with \<open>dryRun: true\<close>. In the first the four required
  fields are all present and the channel is \<open>"comment"\<close>, but the message is the empty
  string: the guard of lines 12-17 rejects it with status 400. The second is the request
  the page sends for an Instagram message before a business account id has been typed in:
  the four fields are non-empty and the channel is \<open>"message"\<close>, the endpoint cannot be
  selected, and the answer is status 500.
\<close>

theorem C2_empty_message_or_no_account_counterexample:
  "field_of (JObj [(''platform'', JStr ''facebook''), (''targetId'', JStr ''123''),
                   (''message'', JStr ''''), (''channel'', JStr ''comment''),
                   (''dryRun'', JBool True)]) ''message'' = Some (JStr '''') \<and>
   response (POST v8_null_read modelled_helper
     (Inr (JObj [(''platform'', JStr ''facebook''), (''targetId'', JStr ''123''),
                 (''message'', JStr ''''), (''channel'', JStr ''comment''),
                 (''dryRun'', JBool True)]))) =
     \<lparr>res_status = 400,
      res_body = JObj [(''ok'', JBool False),
        (''error'', JStr ''platform, targetId, message, and channel are required properties.'')]\<rparr> \<and>
   payload other_message defaultCredentials ''hello'' =
     JObj [(''platform'', JStr ''instagram''), (''targetId'', JStr ''msg-2''),
           (''message'', JStr ''hello''), (''channel'', JStr ''message''),
           (''dryRun'', JBool True), (''instagramBusinessAccountId'', JStr ''''),
           (''accessToken'', JStr '''')] \<and>
   response (POST v8_null_read modelled_helper
     (Inr (payload other_message defaultCredentials ''hello''))) =
     \<lparr>res_status = 500,
      res_body = JObj [(''ok'', JBool False),
        (''error'', JStr ''instagramBusinessAccountId is required for Instagram replies'')]\<rparr>"
proof -
  have sent: "payload other_message defaultCredentials ''hello'' =
     JObj [(''platform'', JStr ''instagram''), (''targetId'', JStr ''msg-2''),
           (''message'', JStr ''hello''), (''channel'', JStr ''message''),
           (''dryRun'', JBool True), (''instagramBusinessAccountId'', JStr ''''),
           (''accessToken'', JStr '''')]"
    by (simp add: payload_def other_message_def defaultCredentials_def
        getChannelFromMessage_def)
  have present: "\<not> required_missing (payload other_message defaultCredentials ''hello'')"
    by (simp add: sent required_missing_def)
  have channel: "field_of (payload other_message defaultCredentials ''hello'') ''channel'' =
        Some (JStr ''comment'') \<or>
      field_of (payload other_message defaultCredentials ''hello'') ''channel'' =
        Some (JStr ''message'')"
    by (simp add: sent)
  have thrown: "modelled_helper (respond_request (payload other_message defaultCredentials ''hello'')) =
      (Inl sample_no_account, [])"
    by (simp add: sent modelled_helper_def postMetaResponse_def respond_request_def)
  have refused: "response (POST v8_null_read modelled_helper
     (Inr (payload other_message defaultCredentials ''hello''))) =
     \<lparr>res_status = 500,
      res_body = JObj [(''ok'', JBool False),
        (''error'', JStr ''instagramBusinessAccountId is required for Instagram replies'')]\<rparr>"
    by (simp add: POST_forwarded [OF present channel] thrown POST_catch_def
        NextResponse_json_def sample_no_account_def)
  have rejected: "response (POST v8_null_read modelled_helper
     (Inr (JObj [(''platform'', JStr ''facebook''), (''targetId'', JStr ''123''),
                 (''message'', JStr ''''), (''channel'', JStr ''comment''),
                 (''dryRun'', JBool True)]))) =
     \<lparr>res_status = 400,
      res_body = JObj [(''ok'', JBool False),
        (''error'', JStr ''platform, targetId, message, and channel are required properties.'')]\<rparr>"
    by (simp add: POST_required required_missing_def)
  show ?thesis
    using sent refused rejected by simp
qed

text \<open>
  C3. Whenever an error is thrown while a request is processed (\<open>request.json()\<close>
  rejects, the body is \<open>null\<close> so that reading its \<open>platform\<close> throws, or
  \<open>postMetaResponse\<close> throws for a request that passed validation), the handler returns
  status 500 with the body \<open>{ok: false, error: <string>}\<close>, where the string is the
  message of the thrown value when that is an Error, and a fixed text otherwise.
\<close>

theorem C3_thrown_error_is_500:
  assumes "request_json = Inl error \<or>
           (request_json = Inr JNull \<and> error = JsError (nr ''platform'')) \<or>
           (\<exists>body. request_json = Inr body \<and>
              ToBoolean (field_of body ''platform'') \<and> ToBoolean (field_of body ''targetId'') \<and>
              ToBoolean (field_of body ''message'') \<and>
              (field_of body ''channel'' = Some (JStr ''comment'') \<or>
               field_of body ''channel'' = Some (JStr ''message'')) \<and>
              fst (pmr (respond_request body)) = Inl error)"
  shows "response (POST nr pmr request_json) =
           \<lparr>res_status = 500,
            res_body = JObj [(''ok'', JBool False),
              (''error'', JStr (case error of
                                  JsError msg \<Rightarrow> msg
                                | NonError v \<Rightarrow> ''Unexpected error while sending response''))]\<rparr>"
proof -
  consider (parse) "request_json = Inl error"
    | (null) "request_json = Inr JNull" "error = JsError (nr ''platform'')"
    | (helper) body where "request_json = Inr body" "\<not> required_missing body"
        "field_of body ''channel'' = Some (JStr ''comment'') \<or>
         field_of body ''channel'' = Some (JStr ''message'')"
        "fst (pmr (respond_request body)) = Inl error"
    using assms unfolding required_missing_def by auto
  then show ?thesis
  proof cases
    case parse
    then show ?thesis
      by (simp add: POST_rejected_parse POST_catch_def NextResponse_json_def)
  next
    case null
    then show ?thesis
      by (simp add: POST_null_body POST_catch_def NextResponse_json_def)
  next
    case helper
    then show ?thesis
      by (simp add: POST_forwarded POST_catch_def NextResponse_json_def)
  qed
qed

text \<open>
  The theorem at a body that is not JSON, for which \<open>request.json()\<close> rejects, and at
  the sample request with a helper that throws after its outbound call.
\<close>

theorem C3_witness:
  "response (POST v8_null_read sample_helper (Inl (JsError ''Unexpected end of JSON input''))) =
     \<lparr>res_status = 500,
      res_body = JObj [(''ok'', JBool False),
        (''error'', JStr ''Unexpected end of JSON input'')]\<rparr> \<and>
   ToBoolean (field_of sample_body ''platform'') \<and>
   ToBoolean (field_of sample_body ''targetId'') \<and>
   ToBoolean (field_of sample_body ''message'') \<and>
   field_of sample_body ''channel'' = Some (JStr ''comment'') \<and>
   fst (failing_helper (respond_request sample_body)) =
     Inl (JsError ''Graph API request failed'') \<and>
   response (POST v8_null_read failing_helper (Inr sample_body)) =
     \<lparr>res_status = 500,
      res_body = JObj [(''ok'', JBool False),
        (''error'', JStr ''Graph API request failed'')]\<rparr>"
proof -
  have valid: "ToBoolean (field_of sample_body ''platform'')"
    "ToBoolean (field_of sample_body ''targetId'')"
    "ToBoolean (field_of sample_body ''message'')"
    "field_of sample_body ''channel'' = Some (JStr ''comment'')"
    by (simp_all add: sample_body_def)
  have thrown: "fst (failing_helper (respond_request sample_body)) =
      Inl (JsError ''Graph API request failed'')"
    by (simp add: failing_helper_def)
  have first: "response (POST v8_null_read sample_helper
        (Inl (JsError ''Unexpected end of JSON input''))) =
     \<lparr>res_status = 500,
      res_body = JObj [(''ok'', JBool False),
        (''error'', JStr ''Unexpected end of JSON input'')]\<rparr>"
    using C3_thrown_error_is_500
      [of "Inl (JsError ''Unexpected end of JSON input'')"
          "JsError ''Unexpected end of JSON input''" v8_null_read sample_helper]
    by simp
  have second: "response (POST v8_null_read failing_helper (Inr sample_body)) =
     \<lparr>res_status = 500,
      res_body = JObj [(''ok'', JBool False),
        (''error'', JStr ''Graph API request failed'')]\<rparr>"
    using C3_thrown_error_is_500
      [of "Inr sample_body" "JsError ''Graph API request failed''" v8_null_read failing_helper]
      valid thrown
    by auto
  show ?thesis
    using valid thrown first second by blast
qed

text \<open>
  C4. For every request that passes validation and for which \<open>postMetaResponse\<close>
  returns a result, the handler returns status 200 with the body
  \<open>{ok: true, result: <that result>}\<close>; and the request \<open>{platform: "facebook", targetId:
  "123", message: "hi", channel: "comment", dryRun: true}\<close> yields status 200 with
  \<open>{ok: true, result: {dryRun: true, ...}}\<close>.
\<close>

theorem C4_result_is_relayed_with_200:
  "(ToBoolean (field_of body ''platform'') \<and> ToBoolean (field_of body ''targetId'') \<and>
    ToBoolean (field_of body ''message'') \<and>
    (field_of body ''channel'' = Some (JStr ''comment'') \<or>
     field_of body ''channel'' = Some (JStr ''message'')) \<and>
    fst (pmr (respond_request body)) = Inr result \<longrightarrow>
    response (POST nr pmr (Inr body)) =
      \<lparr>res_status = 200, res_body = JObj [(''ok'', JBool True), (''result'', result)]\<rparr>) \<and>
   (\<exists>rest. response (POST nr (postMetaResponse token endpoint describe remote no_account)
       (Inr (JObj [(''platform'', JStr ''facebook''), (''targetId'', JStr ''123''),
                   (''message'', JStr ''hi''), (''channel'', JStr ''comment''),
                   (''dryRun'', JBool True)]))) =
      \<lparr>res_status = 200,
       res_body = JObj [(''ok'', JBool True),
         (''result'', JObj ((''dryRun'', JBool True) # rest))]\<rparr>)"
proof (intro conjI impI)
  assume valid: "ToBoolean (field_of body ''platform'') \<and> ToBoolean (field_of body ''targetId'') \<and>
    ToBoolean (field_of body ''message'') \<and>
    (field_of body ''channel'' = Some (JStr ''comment'') \<or>
     field_of body ''channel'' = Some (JStr ''message'')) \<and>
    fst (pmr (respond_request body)) = Inr result"
  then have "\<not> required_missing body"
    by (auto simp: required_missing_def)
  with valid show "response (POST nr pmr (Inr body)) =
      \<lparr>res_status = 200, res_body = JObj [(''ok'', JBool True), (''result'', result)]\<rparr>"
    by (simp add: POST_forwarded)
next
  let ?body = "JObj [(''platform'', JStr ''facebook''), (''targetId'', JStr ''123''),
                   (''message'', JStr ''hi''), (''channel'', JStr ''comment''),
                   (''dryRun'', JBool True)]"
  have present: "\<not> required_missing ?body"
    by (simp add: required_missing_def)
  have channel: "field_of ?body ''channel'' = Some (JStr ''comment'') \<or>
                 field_of ?body ''channel'' = Some (JStr ''message'')"
    by simp
  have "rq_dryRun (respond_request ?body) = Some (JBool True)"
    and "rq_platform (respond_request ?body) = Some (JStr ''facebook'')"
    by (simp_all add: respond_request_def)
  then have "response (POST nr (postMetaResponse token endpoint describe remote no_account)
      (Inr ?body)) =
      \<lparr>res_status = 200,
       res_body = JObj [(''ok'', JBool True),
         (''result'', JObj ((''dryRun'', JBool True) # describe (endpoint (respond_request ?body))))]\<rparr>"
    by (simp add: POST_forwarded [OF present channel] postMetaResponse_def)
  then show "\<exists>rest. response (POST nr (postMetaResponse token endpoint describe remote no_account)
      (Inr ?body)) =
      \<lparr>res_status = 200,
       res_body = JObj [(''ok'', JBool True),
         (''result'', JObj ((''dryRun'', JBool True) # rest))]\<rparr>"
    by blast
qed

text \<open>
  The theorem at a live request: a token is supplied, the helper makes its one outbound
  call and the handler relays what the remote API returned.
\<close>

theorem C4_witness:
  "ToBoolean (field_of (JObj [(''platform'', JStr ''facebook''), (''targetId'', JStr ''123''),
       (''message'', JStr ''hi''), (''channel'', JStr ''message''),
       (''accessToken'', JStr ''EAAG'')]) ''platform'') \<and>
   fst (modelled_helper (respond_request (JObj [(''platform'', JStr ''facebook''),
       (''targetId'', JStr ''123''), (''message'', JStr ''hi''), (''channel'', JStr ''message''),
       (''accessToken'', JStr ''EAAG'')]))) = Inr (JObj [(''id'', JStr ''reply-1'')]) \<and>
   response (POST v8_null_read modelled_helper (Inr (JObj [(''platform'', JStr ''facebook''),
       (''targetId'', JStr ''123''), (''message'', JStr ''hi''), (''channel'', JStr ''message''),
       (''accessToken'', JStr ''EAAG'')]))) =
     \<lparr>res_status = 200,
      res_body = JObj [(''ok'', JBool True), (''result'', JObj [(''id'', JStr ''reply-1'')])]\<rparr>"
  using C4_result_is_relayed_with_200
    [of "JObj [(''platform'', JStr ''facebook''), (''targetId'', JStr ''123''),
               (''message'', JStr ''hi''), (''channel'', JStr ''message''),
               (''accessToken'', JStr ''EAAG'')]"
        modelled_helper "JObj [(''id'', JStr ''reply-1'')]" v8_null_read
        None sample_endpoint sample_describe sample_remote sample_no_account]
  by (simp add: modelled_helper_def postMetaResponse_def respond_request_def sample_remote_def)

text \<open>
  C10. When one of the required fields \<open>platform\<close>, \<open>targetId\<close>, \<open>message\<close>, \<open>channel\<close> is
  present in the body with a falsy value (the empty string, \<open>null\<close>, \<open>false\<close>, zero), the
  handler returns status 400 with \<open>ok: false\<close>, and does all it does for the same body
  without that field.
\<close>

theorem C10_falsy_field_is_400_as_if_absent:
  assumes "f = ''platform'' \<or> f = ''targetId'' \<or> f = ''message'' \<or> f = ''channel''"
    and "field_of (JObj kvs) f = Some v" and "\<not> truthy v"
  shows "POST nr pmr (Inr (JObj kvs)) =
           POST nr pmr (Inr (JObj (filter (\<lambda>kv. fst kv \<noteq> f) kvs))) \<and>
         field_of (JObj (filter (\<lambda>kv. fst kv \<noteq> f) kvs)) f = None \<and>
         response (POST nr pmr (Inr (JObj kvs))) =
           \<lparr>res_status = 400,
            res_body = JObj [(''ok'', JBool False),
              (''error'', JStr ''platform, targetId, message, and channel are required properties.'')]\<rparr> \<and>
         pmr_calls (POST nr pmr (Inr (JObj kvs))) = []"
proof -
  have falsy: "required_missing (JObj kvs)"
    using assms unfolding required_missing_def by auto
  have gone: "field_of (JObj (filter (\<lambda>kv. fst kv \<noteq> f) kvs)) f = None"
    by (simp add: map_of_filter_other)
  then have absent: "required_missing (JObj (filter (\<lambda>kv. fst kv \<noteq> f) kvs))"
    using assms(1) unfolding required_missing_def by auto
  show ?thesis
    using gone by (simp add: POST_required [OF _ falsy] POST_required [OF _ absent])
qed

text \<open>The theorem at the sample request with the empty string for its platform.\<close>

theorem C10_witness:
  "field_of (JObj [(''platform'', JStr ''''), (''targetId'', JStr ''123''),
       (''message'', JStr ''hi''), (''channel'', JStr ''comment'')]) ''platform'' = Some (JStr '''') \<and>
   \<not> truthy (JStr '''') \<and>
   res_status (response (POST v8_null_read sample_helper
     (Inr (JObj [(''platform'', JStr ''''), (''targetId'', JStr ''123''),
                 (''message'', JStr ''hi''), (''channel'', JStr ''comment'')])))) = 400 \<and>
   POST v8_null_read sample_helper
     (Inr (JObj [(''platform'', JStr ''''), (''targetId'', JStr ''123''),
                 (''message'', JStr ''hi''), (''channel'', JStr ''comment'')])) =
   POST v8_null_read sample_helper
     (Inr (JObj [(''targetId'', JStr ''123''), (''message'', JStr ''hi''),
                 (''channel'', JStr ''comment'')]))"
proof -
  let ?kvs = "[(''platform'', JStr ''''), (''targetId'', JStr ''123''),
               (''message'', JStr ''hi''), (''channel'', JStr ''comment'')]"
  have field: "field_of (JObj ?kvs) ''platform'' = Some (JStr '''')"
    and falsy: "\<not> truthy (JStr '''')"
    by simp_all
  have "''platform'' = ''platform'' \<or> ''platform'' = ''targetId'' \<or>
        ''platform'' = ''message'' \<or> ''platform'' = ''channel''"
    by simp
  note fact = C10_falsy_field_is_400_as_if_absent
    [OF this field falsy, of v8_null_read sample_helper]
  from fact
  have "response (POST v8_null_read sample_helper (Inr (JObj ?kvs))) =
          \<lparr>res_status = 400,
           res_body = JObj [(''ok'', JBool False),
             (''error'', JStr ''platform, targetId, message, and channel are required properties.'')]\<rparr>"
    by blast
  then have "res_status (response (POST v8_null_read sample_helper (Inr (JObj ?kvs)))) = 400"
    by simp
  moreover from fact
  have "POST v8_null_read sample_helper (Inr (JObj ?kvs)) =
        POST v8_null_read sample_helper
          (Inr (JObj (filter (\<lambda>kv. fst kv \<noteq> ''platform'') ?kvs)))"
    by blast
  then have "POST v8_null_read sample_helper (Inr (JObj ?kvs)) =
        POST v8_null_read sample_helper
          (Inr (JObj [(''targetId'', JStr ''123''), (''message'', JStr ''hi''),
                      (''channel'', JStr ''comment'')]))"
    by simp
  ultimately show ?thesis
    using field falsy by blast
qed

section \<open>Facts about the dashboard page\<close>

lemma same_but_status_refl: "same_but_status m m"
  by (simp add: same_but_status_def)

lemma same_but_status_trans:
  assumes "same_but_status a b" and "same_but_status b c"
  shows "same_but_status a c"
proof -
  have "b = a\<lparr>m_status := m_status b\<rparr>" and "c = b\<lparr>m_status := m_status c\<rparr>"
    using assms by (simp_all add: same_but_status_def)
  then have "c = a\<lparr>m_status := m_status b, m_status := m_status c\<rparr>"
    by simp
  then show ?thesis
    by (simp add: same_but_status_def)
qed

lemma kept_refl: "list_all2 same_but_status ms ms"
  by (simp add: list_all2_refl same_but_status_refl)

lemma kept_settle:
  "list_all2 same_but_status (messages s)
     (messages (handleSendReply_settle n t sel attempt s))"
proof (cases attempt)
  case (Inl error)
  then show ?thesis by (simp add: handleSendReply_settle_def kept_refl)
next
  case (Inr data)
  have "list_all2 same_but_status (messages s)
          (map (\<lambda>message. if m_id message = m_id sel
                           then message\<lparr>m_status := Responded\<rparr> else message) (messages s))"
    by (simp add: list_all2_map2 same_but_status_def list_all2_refl)
  with Inr show ?thesis by (simp add: handleSendReply_settle_def)
qed

lemma messages_begin: "messages (handleSendReply_begin s) = messages s"
  by (simp add: handleSendReply_begin_def)

lemma messages_addAutomation: "messages (addAutomation n s) = messages s"
  by (simp add: addAutomation_def Let_def)

lemma messages_load_effect: "messages (load_effect br stored s) = messages s"
  by (simp add: load_effect_def split: option.split)

lemma messages_selection_effect: "messages (selection_effect br s) = messages s"
  by (simp add: selection_effect_def split: list.split)

text \<open>Only the settling of a send writes the message list.\<close>

lemma messages_step_other:
  "\<forall>n t sel attempt. ev \<noteq> SendSettled n t sel attempt \<Longrightarrow>
   messages (step br ev s) = messages s"
  by (cases ev)
    (simp_all add: messages_begin messages_addAutomation messages_load_effect
       messages_selection_effect handleCredentialChange_def toggleAutomationStatus_def
       deleteAutomation_def split: option.split)

lemma kept_step: "list_all2 same_but_status (messages s) (messages (step br ev s))"
proof (cases "\<exists>n t sel attempt. ev = SendSettled n t sel attempt")
  case True
  then show ?thesis by (auto simp: kept_settle)
next
  case False
  then show ?thesis by (simp add: messages_step_other kept_refl)
qed

lemma kept_run: "list_all2 same_but_status (messages s) (messages (run br events s))"
proof (induction events arbitrary: s)
  case Nil
  show ?case by (simp add: run_def kept_refl)
next
  case (Cons ev events)
  have "list_all2 same_but_status (messages s) (messages (step br ev s))"
    by (rule kept_step)
  moreover have "list_all2 same_but_status (messages (step br ev s))
                   (messages (run br events (step br ev s)))"
    by (rule Cons.IH)
  ultimately have "list_all2 same_but_status (messages s)
                     (messages (run br events (step br ev s)))"
    by (rule list_all2_trans [rotated]) (rule same_but_status_trans)
  then show ?case by (simp add: run_def)
qed

text \<open>The whole of \<open>handleSendReply\<close>, run without interruption, is two such steps.\<close>

lemma kept_handleSendReply:
  "list_all2 same_but_status (messages s) (messages (handleSendReply br fetch n t reply s))"
proof (cases "selectedMessage s")
  case None
  then show ?thesis by (simp add: handleSendReply_def kept_refl)
next
  case (Some sel)
  have "list_all2 same_but_status (messages (handleSendReply_begin s))
          (messages (handleSendReply_settle n t sel (dispatch br fetch sel (credentials s) reply)
             (handleSendReply_begin s)))"
    by (rule kept_settle)
  with Some show ?thesis
    by (simp add: handleSendReply_def messages_begin)
qed

lemma selectedMessage_SomeD:
  assumes "selectedMessage s = Some sel"
  shows "\<exists>i<length (messages s). messages s ! i = sel \<and> selectedMessageId s = Some (m_id sel)"
  using assms unfolding selectedMessage_def find_Some_iff by auto

text \<open>Where the keys are distinct, an update of the entries with one key is an update at one index.\<close>

lemma map_if_key_update:
  assumes "distinct (map f xs)" and "i < length xs"
  shows "map (\<lambda>x. if f x = f (xs ! i) then g x else x) xs = xs[i := g (xs ! i)]"
proof (rule nth_equalityI)
  show "length (map (\<lambda>x. if f x = f (xs ! i) then g x else x) xs) = length (xs[i := g (xs ! i)])"
    by simp
next
  fix j
  assume "j < length (map (\<lambda>x. if f x = f (xs ! i) then g x else x) xs)"
  then have j: "j < length xs" by simp
  have "f (xs ! j) = f (xs ! i) \<longleftrightarrow> j = i"
    using assms j nth_eq_iff_index_eq [of "map f xs" j i] by auto
  then show "map (\<lambda>x. if f x = f (xs ! i) then g x else x) xs ! j = xs[i := g (xs ! i)] ! j"
    using j by (auto simp: nth_list_update)
qed

lemma messages_sent:
  assumes "selectedMessage s = Some sel"
    and "dispatch br fetch sel (credentials s) reply = Inr data"
  shows "messages (handleSendReply br fetch n t reply s) =
         map (\<lambda>message. if m_id message = m_id sel
                          then message\<lparr>m_status := Responded\<rparr> else message)
           (messages s)"
  using assms
  by (simp add: handleSendReply_def handleSendReply_settle_def handleSendReply_begin_def)

lemma dispatch_fetch_throws:
  "fetch ''/api/respond'' (payload sel creds reply) = Inl error \<Longrightarrow>
   dispatch br fetch sel creds reply = Inl error"
  by (simp add: dispatch_def)

lemma dispatch_json_throws:
  "fetch ''/api/respond'' (payload sel creds reply) = Inr resp \<Longrightarrow>
   resp_json resp = Inl error \<Longrightarrow>
   dispatch br fetch sel creds reply = Inl error"
  by (simp add: dispatch_def)

lemma dispatch_not_ok:
  "fetch ''/api/respond'' (payload sel creds reply) = Inr resp \<Longrightarrow> \<not> resp_ok resp \<Longrightarrow>
   \<exists>error. dispatch br fetch sel creds reply = Inl error"
  by (cases "resp_json resp") (simp_all add: dispatch_def)

lemma dispatch_refused:
  "fetch ''/api/respond'' (payload sel creds reply) = Inr resp \<Longrightarrow>
   resp_json resp = Inr data \<Longrightarrow> \<not> ToBoolean (field_of data ''ok'') \<Longrightarrow>
   \<exists>error. dispatch br fetch sel creds reply = Inl error"
  by (simp add: dispatch_def)

text \<open>The only replies the page accepts: status 2xx and a body with a truthy \<open>ok\<close>.\<close>

lemma dispatch_accepted_iff:
  "dispatch br fetch sel creds reply = Inr data \<longleftrightarrow>
   (\<exists>resp. fetch ''/api/respond'' (payload sel creds reply) = Inr resp \<and> resp_ok resp \<and>
      resp_json resp = Inr data \<and> ToBoolean (field_of data ''ok''))"
proof (cases "fetch ''/api/respond'' (payload sel creds reply)")
  case (Inl error)
  then show ?thesis by (simp add: dispatch_def)
next
  case (Inr resp)
  show ?thesis
  proof (cases "resp_json resp")
    case (Inl error)
    with Inr show ?thesis by (simp add: dispatch_def)
  next
    case body: (Inr parsed)
    have "ToBoolean (field_of parsed ''ok'') \<Longrightarrow> parsed \<noteq> JNull"
      by (cases parsed) auto
    with Inr body show ?thesis
      by (auto simp: dispatch_def)
  qed
qed

lemma handleSendReply_failed:
  assumes "selectedMessage s = Some sel"
    and "dispatch br fetch sel (credentials s) reply = Inl error"
  shows "handleSendReply br fetch n t reply s =
         s\<lparr>activityLog :=
              \<lparr>e_id = ''log-error-'' @ number_text n,
               e_messageId = m_id sel,
               e_platform = m_platform sel,
               e_summary = ''Failed to reply: '' @
                           (case error of JsError msg \<Rightarrow> msg | NonError v \<Rightarrow> ''Unknown error''),
               e_timestamp = t,
               e_outcome = Failed,
               e_meta = None\<rparr> # activityLog s,
            composerFeedback :=
              Some (case error of
                      JsError msg \<Rightarrow> msg
                    | NonError v \<Rightarrow> ''Unexpected error while sending reply.''),
            isSending := False\<rparr>"
  using assms
  by (simp add: handleSendReply_def handleSendReply_settle_def handleSendReply_begin_def)

text \<open>
  The two outcomes of a settled send, whatever the state has become while the exchange
  was under way.
\<close>

lemma settle_failed:
  "activityLog (handleSendReply_settle n t sel (Inl error) s) =
     \<lparr>e_id = ''log-error-'' @ number_text n,
      e_messageId = m_id sel,
      e_platform = m_platform sel,
      e_summary = ''Failed to reply: '' @
                  (case error of JsError msg \<Rightarrow> msg | NonError v \<Rightarrow> ''Unknown error''),
      e_timestamp = t,
      e_outcome = Failed,
      e_meta = None\<rparr> # activityLog s \<and>
   composerValue (handleSendReply_settle n t sel (Inl error) s) = composerValue s \<and>
   messages (handleSendReply_settle n t sel (Inl error) s) = messages s \<and>
   isSending (handleSendReply_settle n t sel (Inl error) s) = False"
  by (simp add: handleSendReply_settle_def)

lemma settle_sent:
  "messages (handleSendReply_settle n t sel (Inr data) s) =
     map (\<lambda>message. if m_id message = m_id sel
                      then message\<lparr>m_status := Responded\<rparr> else message) (messages s) \<and>
   length (activityLog (handleSendReply_settle n t sel (Inr data) s)) =
     Suc (length (activityLog s)) \<and>
   e_outcome (hd (activityLog (handleSendReply_settle n t sel (Inr data) s))) =
     (if result_dryRun data then Scheduled else Sent) \<and>
   composerValue (handleSendReply_settle n t sel (Inr data) s) = [] \<and>
   isSending (handleSendReply_settle n t sel (Inr data) s) = False"
  by (simp add: handleSendReply_settle_def)

lemma load_parsed_invalid:
  "JSON_parse br text = Inl error \<Longrightarrow> load_parsed br (Some text) = None"
  by (simp add: load_parsed_def)

lemma load_effect_invalid:
  "JSON_parse br text = Inl error \<Longrightarrow> load_effect br (Some text) s = s"
  by (simp add: load_effect_def load_parsed_invalid)

lemma selection_effect_initial:
  "selection_effect br (initial_Home sampleMessages) = initial_Home sampleMessages"
proof (cases sampleMessages)
  case Nil
  then show ?thesis
    by (simp add: selection_effect_def filteredMessages_def initial_Home_def)
next
  case (Cons m ms)
  then have "selectedMessage (initial_Home sampleMessages) = Some m"
    by (simp add: selectedMessage_def initial_Home_def)
  then show ?thesis
    by (simp add: selection_effect_def split: list.split)
qed




lemma number_text_7: "number_text 7 = ''7''"
  by (simp add: number_text_def digits.simps digit_char_def)



























lemma same_but_status_id: "same_but_status before after \<Longrightarrow> m_id after = m_id before"
proof -
  assume "same_but_status before after"
  then have "m_id after = m_id (before\<lparr>m_status := m_status after\<rparr>)"
    unfolding same_but_status_def by (rule arg_cong)
  then show ?thesis
    by simp
qed

lemma ids_kept: "list_all2 same_but_status xs ys \<Longrightarrow> map m_id ys = map m_id xs"
  by (induction rule: list_all2_induct) (simp_all add: same_but_status_id)

text \<open>
  C6. After a successful send (\<open>handleSendReply\<close> on its success path) the selected
  message has its status set to \<open>responded\<close> and its other fields unchanged, and every
  other message is unchanged: the list is the earlier one with the selected entry
  replaced. The page tells its messages apart by their ids, which are the keys of the
  inbox rows and the handle of the selection (lines 176-178 and 596-600); the list is
  \<open>sampleMessages\<close> at the start and no operation adds a message or changes an id, so
  the ids of the list are those of \<open>sampleMessages\<close> throughout, and distinct as the keys
  of rows have to be. The update of lines 311-317 is given for any list as well: it sets
  the status of the entries that carry the selected id. No sequence of operations of the
  page removes, adds or reorders a message, or changes more of one than its status.
\<close>

theorem C6_send_marks_responded_and_keeps_the_list:
  "(selectedMessage s = Some sel \<and> dispatch br fetch sel (credentials s) reply = Inr data \<longrightarrow>
      messages (handleSendReply br fetch n t reply s) =
        map (\<lambda>message. if m_id message = m_id sel
                         then message\<lparr>m_status := Responded\<rparr> else message)
          (messages s) \<and>
      (distinct (map m_id (messages s)) \<longrightarrow>
         (\<exists>i<length (messages s). messages s ! i = sel \<and>
            messages (handleSendReply br fetch n t reply s) =
              (messages s)[i := sel\<lparr>m_status := Responded\<rparr>]))) \<and>
   list_all2 (\<lambda>before after. after = before\<lparr>m_status := m_status after\<rparr>)
     (messages s) (messages (run br events s)) \<and>
   map m_id (messages (run br events (initial_Home sampleMessages))) = map m_id sampleMessages"
proof (intro conjI impI)
  assume sent: "selectedMessage s = Some sel \<and>
                dispatch br fetch sel (credentials s) reply = Inr data"
  then show marked: "messages (handleSendReply br fetch n t reply s) =
        map (\<lambda>message. if m_id message = m_id sel
                         then message\<lparr>m_status := Responded\<rparr> else message)
          (messages s)"
    by (simp add: messages_sent)
  assume ids: "distinct (map m_id (messages s))"
  from sent obtain i where i: "i < length (messages s)" "messages s ! i = sel"
    using selectedMessage_SomeD by blast
  have "messages (handleSendReply br fetch n t reply s) =
          (messages s)[i := sel\<lparr>m_status := Responded\<rparr>]"
    using map_if_key_update [OF ids i(1), of "\<lambda>m. m\<lparr>m_status := Responded\<rparr>"] marked i(2)
    by simp
  with i show "\<exists>i<length (messages s). messages s ! i = sel \<and>
            messages (handleSendReply br fetch n t reply s) =
              (messages s)[i := sel\<lparr>m_status := Responded\<rparr>]"
    by blast
next
  have "list_all2 same_but_status (messages s) (messages (run br events s))"
    by (rule kept_run)
  then show "list_all2 (\<lambda>before after. after = before\<lparr>m_status := m_status after\<rparr>)
     (messages s) (messages (run br events s))"
    unfolding same_but_status_def [abs_def] .
next
  have "list_all2 same_but_status (messages (initial_Home sampleMessages))
          (messages (run br events (initial_Home sampleMessages)))"
    by (rule kept_run)
  then have "map m_id (messages (run br events (initial_Home sampleMessages))) =
             map m_id (messages (initial_Home sampleMessages))"
    by (rule ids_kept)
  then show "map m_id (messages (run br events (initial_Home sampleMessages))) =
             map m_id sampleMessages"
    by (simp add: initial_Home_def)
qed

text \<open>
  The theorem at the initial page of two sample messages, the first one selected, with
  the relay answering the page's request through a helper that returns a dry-run result.
\<close>

theorem C6_witness:
  "selectedMessage sample_Home = Some sample_message \<and>
   dispatch sample_browser (relay_fetch sample_helper) sample_message (credentials sample_Home)
       ''hello'' =
     Inr (JObj [(''ok'', JBool True),
                (''result'', JObj [(''dryRun'', JBool True),
                                   (''endpoint'', JStr ''/msg-1/comments'')])]) \<and>
   distinct (map m_id (messages sample_Home)) \<and>
   messages (handleSendReply sample_browser (relay_fetch sample_helper) 1714557600000
       ''2024-05-01T10:00:00.000Z'' ''hello'' sample_Home) =
     [sample_message\<lparr>m_status := Responded\<rparr>, other_message]"
proof -
  have sel: "selectedMessage sample_Home = Some sample_message"
    by (simp add: selectedMessage_def sample_Home_def initial_Home_def sample_message_def
        other_message_def)
  have sent: "dispatch sample_browser (relay_fetch sample_helper) sample_message
                (credentials sample_Home) ''hello'' =
      Inr (JObj [(''ok'', JBool True),
                 (''result'', JObj [(''dryRun'', JBool True),
                                    (''endpoint'', JStr ''/msg-1/comments'')])])"
    by (simp add: dispatch_def payload_def getChannelFromMessage_def relay_fetch_def POST_def POST_try_def POST_catch_def
        NextResponse_json_def respond_request_def
        sample_Home_def initial_Home_def defaultCredentials_def sample_message_def
        sample_helper_def sample_endpoint_def)
  have ids: "distinct (map m_id (messages sample_Home))"
    by (simp add: sample_Home_def initial_Home_def sample_message_def other_message_def)
  have list: "messages sample_Home = [sample_message, other_message]"
    by (simp add: sample_Home_def initial_Home_def)
  have other: "m_id other_message \<noteq> m_id sample_message"
    by (simp add: sample_message_def other_message_def)
  from C6_send_marks_responded_and_keeps_the_list
    [of sample_Home sample_message sample_browser "relay_fetch sample_helper" "''hello''"
        "JObj [(''ok'', JBool True),
               (''result'', JObj [(''dryRun'', JBool True),
                                  (''endpoint'', JStr ''/msg-1/comments'')])]"
        1714557600000 "''2024-05-01T10:00:00.000Z''" "[]"]
  have "messages (handleSendReply sample_browser (relay_fetch sample_helper) 1714557600000
       ''2024-05-01T10:00:00.000Z'' ''hello'' sample_Home) =
     [sample_message\<lparr>m_status := Responded\<rparr>, other_message]"
    using sel sent other by (simp add: list)
  then show ?thesis
    using sel sent ids by blast
qed

text \<open>
  C7. For every send that fails (\<open>fetch\<close> throws, the response has a status outside 2xx,
  its body cannot be read as JSON, or its body has \<open>ok: false\<close> or no truthy \<open>ok\<close>),
  exactly one entry is put in front of the activity log, with outcome \<open>error\<close> and the id
  of the selected message; the composer value and the message list are unchanged.
\<close>

theorem C7_failed_send_logs_one_error:
  assumes "selectedMessage s = Some sel"
    and "(\<exists>error. fetch ''/api/respond'' (payload sel (credentials s) reply) = Inl error) \<or>
         (\<exists>resp. fetch ''/api/respond'' (payload sel (credentials s) reply) = Inr resp \<and>
            (\<not> resp_ok resp \<or>
             (\<exists>error. resp_json resp = Inl error) \<or>
             (\<exists>data. resp_json resp = Inr data \<and> \<not> ToBoolean (field_of data ''ok''))))"
  shows "(\<exists>entry. activityLog (handleSendReply br fetch n t reply s) = entry # activityLog s \<and>
            e_outcome entry = Failed \<and> e_messageId entry = m_id sel) \<and>
         composerValue (handleSendReply br fetch n t reply s) = composerValue s \<and>
         messages (handleSendReply br fetch n t reply s) = messages s"
proof -
  let ?sent = "fetch ''/api/respond'' (payload sel (credentials s) reply)"
  consider (threw) error where "?sent = Inl error"
    | (status) resp where "?sent = Inr resp" "\<not> resp_ok resp"
    | (unread) resp error where "?sent = Inr resp" "resp_json resp = Inl error"
    | (refused) resp data where "?sent = Inr resp" "resp_json resp = Inr data"
        "\<not> ToBoolean (field_of data ''ok'')"
    using assms(2) by blast
  then have "\<exists>error. dispatch br fetch sel (credentials s) reply = Inl error"
  proof cases
    case threw
    then show ?thesis by (simp add: dispatch_fetch_throws)
  next
    case status
    then show ?thesis by (rule dispatch_not_ok)
  next
    case unread
    then show ?thesis by (simp add: dispatch_json_throws)
  next
    case refused
    then show ?thesis by (rule dispatch_refused)
  qed
  then obtain error where "dispatch br fetch sel (credentials s) reply = Inl error" ..
  then show ?thesis
    by (simp add: handleSendReply_failed [OF assms(1)])
qed

text \<open>
  The theorem at the initial page with a reply typed in, against a relay whose helper
  throws: the relay answers 500 with \<open>ok: false\<close>.
\<close>

theorem C7_witness:
  "selectedMessage (sample_Home\<lparr>composerValue := ''hello''\<rparr>) = Some sample_message \<and>
   relay_fetch failing_helper ''/api/respond''
       (payload sample_message (credentials (sample_Home\<lparr>composerValue := ''hello''\<rparr>)) ''hello'') =
     Inr \<lparr>resp_ok = False,
          resp_json = Inr (JObj [(''ok'', JBool False),
                                 (''error'', JStr ''Graph API request failed'')])\<rparr> \<and>
   map e_outcome (activityLog (handleSendReply sample_browser (relay_fetch failing_helper)
       1714557600000 ''2024-05-01T10:00:00.000Z'' ''hello''
       (sample_Home\<lparr>composerValue := ''hello''\<rparr>))) = [Failed] \<and>
   composerValue (handleSendReply sample_browser (relay_fetch failing_helper)
       1714557600000 ''2024-05-01T10:00:00.000Z'' ''hello''
       (sample_Home\<lparr>composerValue := ''hello''\<rparr>)) = ''hello'' \<and>
   messages (handleSendReply sample_browser (relay_fetch failing_helper)
       1714557600000 ''2024-05-01T10:00:00.000Z'' ''hello''
       (sample_Home\<lparr>composerValue := ''hello''\<rparr>)) = [sample_message, other_message]"
proof -
  let ?s = "sample_Home\<lparr>composerValue := ''hello''\<rparr>"
  have sel: "selectedMessage ?s = Some sample_message"
    by (simp add: selectedMessage_def sample_Home_def initial_Home_def sample_message_def
        other_message_def)
  have answer: "relay_fetch failing_helper ''/api/respond''
       (payload sample_message (credentials ?s) ''hello'') =
     Inr \<lparr>resp_ok = False,
          resp_json = Inr (JObj [(''ok'', JBool False),
                                 (''error'', JStr ''Graph API request failed'')])\<rparr>"
    by (simp add: payload_def getChannelFromMessage_def relay_fetch_def POST_def POST_try_def POST_catch_def
        NextResponse_json_def respond_request_def sample_Home_def
        initial_Home_def defaultCredentials_def sample_message_def failing_helper_def)
  have log: "activityLog ?s = []" and composer: "composerValue ?s = ''hello''"
    and list: "messages ?s = [sample_message, other_message]"
    by (simp_all add: sample_Home_def initial_Home_def)
  from C7_failed_send_logs_one_error
    [of ?s sample_message "relay_fetch failing_helper" "''hello''" sample_browser
        1714557600000 "''2024-05-01T10:00:00.000Z''"]
  show ?thesis
    using sel answer by (auto simp: log composer list)
qed

text \<open>
  C8. When the text stored under the automation-rules key is not valid JSON, so that
  \<^verbatim>\<open>JSON.parse\<close> throws, the load effect leaves the whole state as it was; the page
  loaded over such a storage is in its initial state, with the default rule list and no
  feedback message, and the storage holds the text of the default rules in place of the
  payload.
\<close>

theorem C8_corrupted_payload_is_ignored:
  assumes "localStorage storage_key = Some text" and "JSON_parse br text = Inl error"
  shows "load_effect br (localStorage storage_key) s = s \<and>
         fst (mount br sampleMessages localStorage) = initial_Home sampleMessages \<and>
         automations (fst (mount br sampleMessages localStorage)) = initialAutomations \<and>
         automationFeedback (fst (mount br sampleMessages localStorage)) = None \<and>
         composerFeedback (fst (mount br sampleMessages localStorage)) = None \<and>
         snd (mount br sampleMessages localStorage) storage_key =
           Some (JSON_stringify br initialAutomations)"
proof -
  have kept: "load_effect br (localStorage storage_key) s = s" for s
    using assms by (simp add: load_effect_invalid)
  have none: "load_parsed br (localStorage storage_key) = None"
    using assms by (simp add: load_parsed_invalid)
  have state: "fst (mount br sampleMessages localStorage) = initial_Home sampleMessages"
    by (simp add: mount_def Let_def kept selection_effect_initial)
  have stored: "snd (mount br sampleMessages localStorage) storage_key =
           Some (JSON_stringify br (automations (initial_Home sampleMessages)))"
    by (simp add: mount_def Let_def none persist_effect_def)
  show ?thesis
    using kept state stored by (simp add: initial_Home_def)
qed

text \<open>The theorem at a storage that holds a truncated text.\<close>

theorem C8_witness:
  "[storage_key \<mapsto> ''[{''] storage_key = Some ''[{'' \<and>
   JSON_parse sample_browser ''[{'' = Inl (JsError ''Unexpected token'') \<and>
   fst (mount sample_browser [sample_message, other_message] [storage_key \<mapsto> ''[{'']) =
     sample_Home \<and>
   automations (fst (mount sample_browser [sample_message, other_message]
     [storage_key \<mapsto> ''[{''])) = initialAutomations"
proof -
  have stored: "[storage_key \<mapsto> ''[{''] storage_key = Some ''[{''"
    by simp
  have invalid: "JSON_parse sample_browser ''[{'' = Inl (JsError ''Unexpected token'')"
    by (simp add: sample_browser_def)
  from C8_corrupted_payload_is_ignored
    [of "[storage_key \<mapsto> ''[{'']" "''[{''" sample_browser "JsError ''Unexpected token''"
        sample_Home "[sample_message, other_message]"]
  show ?thesis
    using stored invalid by (simp add: sample_Home_def initial_Home_def)
qed

text \<open>
  C9. When the name, the trigger or the response of the draft is the empty string,
  \<open>addAutomation\<close> sets the validation message and changes nothing else: the rule list
  and the draft stay as they were. When all three are non-empty, the rule made of the
  draft is put in front of the rule list.
\<close>

theorem C9_addAutomation_requires_three_fields:
  "(d_name (newAutomation s) = [] \<or> d_trigger (newAutomation s) = [] \<or>
    d_response (newAutomation s) = [] \<longrightarrow>
      addAutomation now s =
        s\<lparr>automationFeedback :=
            Some ''Please provide a name, trigger, and response for the automation.''\<rparr> \<and>
      automations (addAutomation now s) = automations s \<and>
      newAutomation (addAutomation now s) = newAutomation s) \<and>
   (d_name (newAutomation s) \<noteq> [] \<and> d_trigger (newAutomation s) \<noteq> [] \<and>
    d_response (newAutomation s) \<noteq> [] \<longrightarrow>
      automations (addAutomation now s) =
        \<lparr>a_id = ''automation-'' @ number_text now,
         a_name = d_name (newAutomation s),
         a_platform = d_platform (newAutomation s),
         a_channel = d_channel (newAutomation s),
         a_trigger = d_trigger (newAutomation s),
         a_response = d_response (newAutomation s),
         a_status = automationStatus s\<rparr> # automations s)"
  by (simp add: addAutomation_def Let_def)

text \<open>
  The theorem at a draft with a name and a trigger and no response, and at the sample
  draft.
\<close>

theorem C9_witness:
  "d_response (newAutomation (sample_Home\<lparr>newAutomation := sample_draft\<lparr>d_response := []\<rparr>\<rparr>)) = [] \<and>
   automationFeedback (addAutomation 7
       (sample_Home\<lparr>newAutomation := sample_draft\<lparr>d_response := []\<rparr>\<rparr>)) =
     Some ''Please provide a name, trigger, and response for the automation.'' \<and>
   automations (addAutomation 7
       (sample_Home\<lparr>newAutomation := sample_draft\<lparr>d_response := []\<rparr>\<rparr>)) = initialAutomations \<and>
   newAutomation (addAutomation 7
       (sample_Home\<lparr>newAutomation := sample_draft\<lparr>d_response := []\<rparr>\<rparr>)) =
     sample_draft\<lparr>d_response := []\<rparr> \<and>
   d_name (newAutomation (sample_Home\<lparr>newAutomation := sample_draft\<rparr>)) \<noteq> [] \<and>
   d_trigger (newAutomation (sample_Home\<lparr>newAutomation := sample_draft\<rparr>)) \<noteq> [] \<and>
   d_response (newAutomation (sample_Home\<lparr>newAutomation := sample_draft\<rparr>)) \<noteq> [] \<and>
   automations (addAutomation 7 (sample_Home\<lparr>newAutomation := sample_draft\<rparr>)) =
     sample_rule # initialAutomations"
  using C9_addAutomation_requires_three_fields
      [of "sample_Home\<lparr>newAutomation := sample_draft\<lparr>d_response := []\<rparr>\<rparr>" 7]
    C9_addAutomation_requires_three_fields
      [of "sample_Home\<lparr>newAutomation := sample_draft\<rparr>" 7]
  by (simp add: number_text_7 sample_draft_def sample_rule_def sample_Home_def initial_Home_def)

end
